theory Spec2Isabelle
  imports Complex_Main "HOL-Library.Sublist"
begin

section \<open>The Http2RPC endpoint of rpcmate (index.js, the variant shipped with index.d.ts)\<close>

text \<open>
  The development embeds the class \<open>Http2RPC\<close> as it is written in the variant of
  \<open>index.js\<close> that carries the \<open>DEFAULTS\<close> table, the \<open>validators\<close> and the per-method
  bulkhead. On the outbound side, JavaScript numbers that count things or measure
  milliseconds are integers (\<open>int\<close>, or \<open>nat\<close> for timer durations and for \<open>maxRetries\<close>,
  so that the retry loop runs at least once), and the back-off delays, which the source
  multiplies by fractions, are \<open>real\<close>. On the inbound side the numbers that reach the
  class from outside (bulkhead limits, the numeric claims of a token) are JavaScript
  numbers with their infinities and \<open>NaN\<close>. Arithmetic is exact: the rounding of IEEE
  doubles is not modelled. A string is a list of code units below 256. The logger's calls
  are left out, except where evaluating their arguments can throw.
\<close>

subsection \<open>JavaScript numbers\<close>

text \<open>
  A value of type \<open>number\<close>, and the comparison \<open>a < b\<close> on numbers: false whenever \<open>NaN\<close>
  takes part.
\<close>

datatype number = Finite real | PlusInfinity | MinusInfinity | NaN

fun less_number :: "number \<Rightarrow> number \<Rightarrow> bool" where
  "less_number (Finite a) (Finite b) = (a < b)"
| "less_number (Finite a) PlusInfinity = True"
| "less_number MinusInfinity (Finite b) = True"
| "less_number MinusInfinity PlusInfinity = True"
| "less_number a b = False"

definition number_of_int :: "int \<Rightarrow> number" where
  "number_of_int n = Finite (real_of_int n)"

subsection \<open>DEFAULTS\<close>

definition DEFAULT_REQUEST_TIMEOUT :: nat where
  "DEFAULT_REQUEST_TIMEOUT = 30000"

definition DEFAULT_CONNECTION_TIMEOUT :: nat where
  "DEFAULT_CONNECTION_TIMEOUT = 5000"

definition DEFAULT_FAILURE_THRESHOLD :: int where
  "DEFAULT_FAILURE_THRESHOLD = 5"

definition DEFAULT_RECOVERY_TIMEOUT :: int where
  "DEFAULT_RECOVERY_TIMEOUT = 10000"

definition DEFAULT_SUCCESS_THRESHOLD :: int where
  "DEFAULT_SUCCESS_THRESHOLD = 3"

definition DEFAULT_MAX_RETRIES :: nat where
  "DEFAULT_MAX_RETRIES = 3"

definition DEFAULT_INITIAL_DELAY :: real where
  "DEFAULT_INITIAL_DELAY = 500"

definition DEFAULT_MAX_DELAY :: real where
  "DEFAULT_MAX_DELAY = 5000"

definition DEFAULT_BACKOFF_FACTOR :: real where
  "DEFAULT_BACKOFF_FACTOR = 2"

datatype retry_key = Status int | Code string

definition DEFAULT_RETRY_ON :: "retry_key list" where
  "DEFAULT_RETRY_ON = [Status 500, Status 502, Status 503, Status 504]"

definition DEFAULT_JITTER :: bool where
  "DEFAULT_JITTER = True"

definition DEFAULT_MAX_CONCURRENT :: number where
  "DEFAULT_MAX_CONCURRENT = Finite 10"

definition DEFAULT_MAX_QUEUE :: number where
  "DEFAULT_MAX_QUEUE = Finite 20"

definition DEFAULT_QUEUE_TIMEOUT :: number where
  "DEFAULT_QUEUE_TIMEOUT = Finite 10000"


subsection \<open>The resilience configuration built by the constructor\<close>

text \<open>
  An options object is a record of optional fields: \<open>None\<close> is a key the caller did not
  give. The object spread \<open>{ k: d, ...o }\<close> keeps \<open>d\<close> unless \<open>o\<close> has the key. An options
  object that is absent altogether (\<open>options.resilience?.circuitBreaker\<close> undefined)
  spreads nothing and is the record with every field \<open>None\<close>.
\<close>

definition spread :: "'a \<Rightarrow> 'a option \<Rightarrow> 'a" where
  "spread d ov = (case ov of None \<Rightarrow> d | Some v \<Rightarrow> v)"

record timeout_config =
  timeout_enabled :: bool
  requestTimeout :: nat
  connectionTimeout :: nat

record timeout_options =
  opt_timeout_enabled :: "bool option"
  opt_requestTimeout :: "nat option"
  opt_connectionTimeout :: "nat option"

record circuitBreaker_config =
  circuitBreaker_enabled :: bool
  failureThreshold :: int
  recoveryTimeout :: int
  successThreshold :: int

record circuitBreaker_options =
  opt_circuitBreaker_enabled :: "bool option"
  opt_failureThreshold :: "int option"
  opt_recoveryTimeout :: "int option"
  opt_successThreshold :: "int option"

record retry_config =
  maxRetries :: nat
  initialDelay :: real
  maxDelay :: real
  backoffFactor :: real
  retryOn :: "retry_key list"
  jitterEnabled :: bool

record retry_options =
  opt_maxRetries :: "nat option"
  opt_initialDelay :: "real option"
  opt_maxDelay :: "real option"
  opt_backoffFactor :: "real option"
  opt_retryOn :: "retry_key list option"
  opt_jitterEnabled :: "bool option"

record resilience_config =
  timeout :: timeout_config
  circuitBreaker :: circuitBreaker_config
  retry :: retry_config

record resilience_options =
  opt_timeout :: timeout_options
  opt_circuitBreaker :: circuitBreaker_options
  opt_retry :: retry_options

definition no_timeout_options :: timeout_options where
  "no_timeout_options =
     \<lparr>opt_timeout_enabled = None, opt_requestTimeout = None, opt_connectionTimeout = None\<rparr>"

definition no_circuitBreaker_options :: circuitBreaker_options where
  "no_circuitBreaker_options =
     \<lparr>opt_circuitBreaker_enabled = None, opt_failureThreshold = None,
      opt_recoveryTimeout = None, opt_successThreshold = None\<rparr>"

definition no_retry_options :: retry_options where
  "no_retry_options =
     \<lparr>opt_maxRetries = None, opt_initialDelay = None, opt_maxDelay = None,
      opt_backoffFactor = None, opt_retryOn = None, opt_jitterEnabled = None\<rparr>"

definition no_resilience_options :: resilience_options where
  "no_resilience_options =
     \<lparr>opt_timeout = no_timeout_options, opt_circuitBreaker = no_circuitBreaker_options,
      opt_retry = no_retry_options\<rparr>"

definition merge_retry :: "retry_config \<Rightarrow> retry_options \<Rightarrow> retry_config" where
  "merge_retry c ov =
     \<lparr>maxRetries = spread (maxRetries c) (opt_maxRetries ov),
      initialDelay = spread (initialDelay c) (opt_initialDelay ov),
      maxDelay = spread (maxDelay c) (opt_maxDelay ov),
      backoffFactor = spread (backoffFactor c) (opt_backoffFactor ov),
      retryOn = spread (retryOn c) (opt_retryOn ov),
      jitterEnabled = spread (jitterEnabled c) (opt_jitterEnabled ov)\<rparr>"

text \<open>
  \<open>this.resilience = { timeout: {...}, circuitBreaker: {...}, retry: {...} }\<close> of the
  constructor; \<open>legacy\<close> is \<open>options.retryOptions\<close>, spread last.
\<close>

definition constructor_resilience ::
  "resilience_options \<Rightarrow> retry_options \<Rightarrow> resilience_config" where
  "constructor_resilience ro legacy =
     \<lparr>timeout =
        \<lparr>timeout_enabled = spread True (opt_timeout_enabled (opt_timeout ro)),
         requestTimeout = spread DEFAULT_REQUEST_TIMEOUT (opt_requestTimeout (opt_timeout ro)),
         connectionTimeout =
           spread DEFAULT_CONNECTION_TIMEOUT (opt_connectionTimeout (opt_timeout ro))\<rparr>,
      circuitBreaker =
        \<lparr>circuitBreaker_enabled =
           spread True (opt_circuitBreaker_enabled (opt_circuitBreaker ro)),
         failureThreshold =
           spread DEFAULT_FAILURE_THRESHOLD (opt_failureThreshold (opt_circuitBreaker ro)),
         recoveryTimeout =
           spread DEFAULT_RECOVERY_TIMEOUT (opt_recoveryTimeout (opt_circuitBreaker ro)),
         successThreshold =
           spread DEFAULT_SUCCESS_THRESHOLD (opt_successThreshold (opt_circuitBreaker ro))\<rparr>,
      retry =
        merge_retry
          (merge_retry
             \<lparr>maxRetries = DEFAULT_MAX_RETRIES, initialDelay = DEFAULT_INITIAL_DELAY,
              maxDelay = DEFAULT_MAX_DELAY, backoffFactor = DEFAULT_BACKOFF_FACTOR,
              retryOn = DEFAULT_RETRY_ON, jitterEnabled = DEFAULT_JITTER\<rparr>
             (opt_retry ro))
          legacy\<rparr>"

subsection \<open>Circuit breaker\<close>

datatype breaker = CLOSED | OPEN | HALF_OPEN

record circuit =
  state :: breaker
  failureCount :: int
  successCount :: int
  lastFailureTime :: int
  nextAttemptTime :: int

record metrics =
  requestCount :: int
  errorCount :: int
  retryCount :: int
  authFailures :: int
  timeoutCount :: int
  circuitBreakerTrips :: int
  bulkheadRejections :: int

text \<open>The outbound part of \<open>this\<close>: configuration, breaker registry and counters.\<close>

record client =
  resilience :: resilience_config
  circuitBreakers :: "string \<rightharpoonup> circuit"
  metrics :: metrics

definition new_circuit :: circuit where
  "new_circuit =
     \<lparr>state = CLOSED, failureCount = 0, successCount = 0, lastFailureTime = 0,
      nextAttemptTime = 0\<rparr>"

text \<open>\<open>#getCircuitBreakerState\<close>: creates the entry on first use, then returns it.\<close>

definition getCircuitBreakerState :: "string \<Rightarrow> client \<Rightarrow> circuit \<times> client" where
  "getCircuitBreakerState serviceUrl this =
     (case circuitBreakers this serviceUrl of
        None \<Rightarrow>
          (new_circuit, this\<lparr>circuitBreakers := (circuitBreakers this)(serviceUrl \<mapsto> new_circuit)\<rparr>)
      | Some c \<Rightarrow> (c, this))"

definition updateCircuitBreakerOnSuccess :: "string \<Rightarrow> client \<Rightarrow> client" where
  "updateCircuitBreakerOnSuccess serviceUrl this0 =
     (let (c, this) = getCircuitBreakerState serviceUrl this0;
          config = circuitBreaker (resilience this);
          c' =
            (if state c = HALF_OPEN then
               (let c1 = c\<lparr>successCount := successCount c + 1\<rparr>
                in if successCount c1 \<ge> successThreshold config
                   then c1\<lparr>state := CLOSED, failureCount := 0, successCount := 0\<rparr>
                   else c1)
             else if state c = CLOSED then c\<lparr>failureCount := 0\<rparr>
             else c)
      in this\<lparr>circuitBreakers := (circuitBreakers this)(serviceUrl \<mapsto> c')\<rparr>)"

text \<open>
  \<open>#updateCircuitBreakerOnFailure\<close> reads the clock twice: \<open>tL\<close> is the value stored
  in \<open>lastFailureTime\<close>, \<open>now\<close> the value that arms \<open>nextAttemptTime\<close>.
\<close>

definition updateCircuitBreakerOnFailure ::
  "string \<Rightarrow> int \<Rightarrow> int \<Rightarrow> client \<Rightarrow> client" where
  "updateCircuitBreakerOnFailure serviceUrl tL now this0 =
     (let (c, this) = getCircuitBreakerState serviceUrl this0;
          config = circuitBreaker (resilience this);
          c1 = c\<lparr>failureCount := failureCount c + 1, lastFailureTime := tL, successCount := 0\<rparr>
      in if state c1 = CLOSED \<and> failureCount c1 \<ge> failureThreshold config then
           this\<lparr>circuitBreakers :=
                  (circuitBreakers this)(serviceUrl \<mapsto>
                     c1\<lparr>state := OPEN, nextAttemptTime := now + recoveryTimeout config\<rparr>),
                metrics :=
                  (metrics this)\<lparr>circuitBreakerTrips := circuitBreakerTrips (metrics this) + 1\<rparr>\<rparr>
         else if state c1 = HALF_OPEN then
           this\<lparr>circuitBreakers :=
                  (circuitBreakers this)(serviceUrl \<mapsto>
                     c1\<lparr>state := OPEN, nextAttemptTime := now + recoveryTimeout config\<rparr>)\<rparr>
         else this\<lparr>circuitBreakers := (circuitBreakers this)(serviceUrl \<mapsto> c1)\<rparr>)"

record js_error =
  err_message :: string
  err_code :: "string option"
  err_status :: "int option"

definition Error :: "string \<Rightarrow> js_error" where
  "Error msg = \<lparr>err_message = msg, err_code = None, err_status = None\<rparr>"

text \<open>\<open>#checkCircuitBreaker\<close>: \<open>None\<close> is \<open>{ allowed: true }\<close>, \<open>Some e\<close> is
  \<open>{ allowed: false, error: e }\<close>.\<close>

definition checkCircuitBreaker ::
  "string \<Rightarrow> int \<Rightarrow> client \<Rightarrow> js_error option \<times> client" where
  "checkCircuitBreaker serviceUrl now this0 =
     (if \<not> circuitBreaker_enabled (circuitBreaker (resilience this0)) then (None, this0)
      else
        (let (c, this) = getCircuitBreakerState serviceUrl this0
         in if state c = OPEN then
              (if now \<ge> nextAttemptTime c then
                 (None,
                  this\<lparr>circuitBreakers :=
                         (circuitBreakers this)(serviceUrl \<mapsto>
                            c\<lparr>state := HALF_OPEN, successCount := 0\<rparr>)\<rparr>)
               else (Some (Error (''Circuit breaker is OPEN for '' @ serviceUrl)), this))
            else (None, this)))"

text \<open>\<open>resetCircuitBreaker\<close>.\<close>

definition resetCircuitBreaker :: "string \<Rightarrow> client \<Rightarrow> client" where
  "resetCircuitBreaker serviceUrl this =
     (case circuitBreakers this serviceUrl of
        None \<Rightarrow> this
      | Some c \<Rightarrow> this\<lparr>circuitBreakers := (circuitBreakers this)(serviceUrl \<mapsto> new_circuit)\<rparr>)"

text \<open>The constructor's initial counters and empty breaker registry.\<close>

definition initial_metrics :: metrics where
  "initial_metrics =
     \<lparr>requestCount = 0, errorCount = 0, retryCount = 0, authFailures = 0, timeoutCount = 0,
      circuitBreakerTrips = 0, bulkheadRejections = 0\<rparr>"

definition constructor_client :: "resilience_options \<Rightarrow> retry_options \<Rightarrow> client" where
  "constructor_client ro legacy =
     \<lparr>resilience = constructor_resilience ro legacy, circuitBreakers = Map.empty,
      metrics = initial_metrics\<rparr>"

subsection \<open>One outbound attempt: \<open>#makeRequest\<close> under \<open>#createTimeoutPromise\<close>\<close>

text \<open>Template literals print numbers in decimal.\<close>

fun show_nat :: "nat \<Rightarrow> string" where
  "show_nat n =
     (if n < 10 then [''0123456789'' ! n]
      else show_nat (n div 10) @ [''0123456789'' ! (n mod 10)])"

text \<open>
  The response body after \<open>JSON.parse\<close> (the codec is not part of the class): no data at
  all; text for which parsing, or reading \<open>response.error\<close> of the value parsed (\<open>null\<close>),
  throws an error with the given message; or a value whose fields \<open>error\<close>, \<open>message\<close>,
  \<open>status\<close> and \<open>data\<close> may each be missing.
\<close>

record envelope =
  env_error :: "string option"
  env_message :: "string option"
  env_status :: "int option"
  env_data :: "string option"

datatype received = NoData | Unparseable string | Parsed envelope

text \<open>
  What the transport does during one attempt, in milliseconds: \<open>http2.connect\<close> throws; the
  session emits \<open>error\<close> after \<open>t\<close> ms; the session never connects; or it connects after
  \<open>t\<close> ms and the stream then ends with a body after \<open>d\<close> more ms, emits \<open>error\<close>, or stays
  silent.
\<close>

datatype stream = End nat received | StreamError nat js_error | Silent

datatype transport = ConnectThrows js_error | ClientError nat js_error | NoConnect
  | Connect nat stream

datatype settled_by = Synchronously | ConnectionTimer | StreamTimer | IOEvent

definition truthy_string :: "string option \<Rightarrow> bool" where
  "truthy_string v = (case v of None \<Rightarrow> False | Some s \<Rightarrow> s \<noteq> [])"

definition truthy_number :: "int option \<Rightarrow> bool" where
  "truthy_number v = (case v of None \<Rightarrow> False | Some n \<Rightarrow> n \<noteq> 0)"

text \<open>JavaScript's \<open>a || b\<close> on an optional string and on an optional number.\<close>

definition or_string :: "string option \<Rightarrow> string \<Rightarrow> string" where
  "or_string v d = (case v of None \<Rightarrow> d | Some s \<Rightarrow> if s \<noteq> [] then s else d)"

definition or_number :: "int option \<Rightarrow> int \<Rightarrow> int" where
  "or_number v d = (case v of None \<Rightarrow> d | Some n \<Rightarrow> if n \<noteq> 0 then n else d)"

text \<open>The \<open>end\<close> handler of the stream.\<close>

definition onEnd :: "received \<Rightarrow> js_error + string option" where
  "onEnd data =
     (case data of
        NoData \<Rightarrow> Inl (Error ''Empty response from server'')
      | Unparseable m \<Rightarrow> Inl (Error (''Invalid JSON response: '' @ m))
      | Parsed response \<Rightarrow>
          if truthy_string (env_error response) then
            Inl \<lparr>err_message = or_string (env_message response) ''RPC Error'',
                 err_code = env_error response,
                 err_status = Some (or_number (env_status response) 500)\<rparr>
          else Inr (env_data response))"

definition connection_timeout_error :: "timeout_config \<Rightarrow> js_error" where
  "connection_timeout_error tc =
     Error (''Connection timeout after '' @ show_nat (connectionTimeout tc) @ ''ms'')"

definition request_timeout_error :: "nat \<Rightarrow> js_error" where
  "request_timeout_error ms = Error (''Request timeout after '' @ show_nat ms @ ''ms'')"

text \<open>
  \<open>#makeRequest\<close>: when its promise settles (ms after the attempt started), what settled
  it, and how. The connection timer and the stream timer are armed whatever
  \<open>timeout.enabled\<close> says, and neither touches the metrics. An event of the transport
  wins over a timer only when it comes strictly before the timer expires.
\<close>

definition makeRequest ::
  "timeout_config \<Rightarrow> transport \<Rightarrow> nat \<times> settled_by \<times> (js_error + string option)" where
  "makeRequest tc tr =
     (case tr of
        ConnectThrows e \<Rightarrow> (0, Synchronously, Inl e)
      | ClientError t e \<Rightarrow>
          if t < connectionTimeout tc then (t, IOEvent, Inl e)
          else (connectionTimeout tc, ConnectionTimer, Inl (connection_timeout_error tc))
      | NoConnect \<Rightarrow> (connectionTimeout tc, ConnectionTimer, Inl (connection_timeout_error tc))
      | Connect t s \<Rightarrow>
          if t < connectionTimeout tc then
            (case s of
               End d data \<Rightarrow>
                 if d < requestTimeout tc then (t + d, IOEvent, onEnd data)
                 else (t + requestTimeout tc, StreamTimer,
                       Inl (request_timeout_error (requestTimeout tc)))
             | StreamError d e \<Rightarrow>
                 if d < requestTimeout tc then (t + d, IOEvent, Inl e)
                 else (t + requestTimeout tc, StreamTimer,
                       Inl (request_timeout_error (requestTimeout tc)))
             | Silent \<Rightarrow>
                 (t + requestTimeout tc, StreamTimer,
                  Inl (request_timeout_error (requestTimeout tc))))
          else (connectionTimeout tc, ConnectionTimer, Inl (connection_timeout_error tc)))"

text \<open>
  \<open>#createTimeoutPromise\<close>: its timer is armed right after \<open>#makeRequest\<close> has armed the
  connection timer, and before the stream timer exists. Timers that expire in the same
  millisecond fire in the order they were armed, so the wrapper's timer loses a tie to the
  connection timer only. When it fires first it counts the timeout and rejects; otherwise
  the operation's own settlement passes through and nothing is counted.
\<close>

definition wrapper_fires_first :: "nat \<Rightarrow> nat \<times> settled_by \<times> 'a \<Rightarrow> bool" where
  "wrapper_fires_first ms operation =
     (case operation of
        (t, Synchronously, _) \<Rightarrow> False
      | (t, ConnectionTimer, _) \<Rightarrow> ms < t
      | (t, StreamTimer, _) \<Rightarrow> ms \<le> t
      | (t, IOEvent, _) \<Rightarrow> ms \<le> t)"

definition createTimeoutPromise ::
  "nat \<Rightarrow> nat \<times> settled_by \<times> (js_error + string option) \<Rightarrow> client
     \<Rightarrow> (js_error + string option) \<times> client" where
  "createTimeoutPromise ms operation this =
     (if wrapper_fires_first ms operation then
        (Inl (request_timeout_error ms),
         this\<lparr>metrics := (metrics this)\<lparr>timeoutCount := timeoutCount (metrics this) + 1\<rparr>\<rparr>)
      else (snd (snd operation), this))"

text \<open>The two lines of \<open>request\<close> that run an attempt.\<close>

definition executeAttempt :: "transport \<Rightarrow> client \<Rightarrow> (js_error + string option) \<times> client" where
  "executeAttempt tr this =
     (let requestPromise = makeRequest (timeout (resilience this)) tr
      in if timeout_enabled (timeout (resilience this))
         then createTimeoutPromise (requestTimeout (timeout (resilience this))) requestPromise this
         else (snd (snd requestPromise), this))"

subsection \<open>Retry\<close>

text \<open>\<open>#calculateRetryDelay\<close>; \<open>u\<close> is the value \<open>Math.random()\<close> returns.\<close>

definition calculateRetryDelay :: "nat \<Rightarrow> retry_config \<Rightarrow> real \<Rightarrow> real" where
  "calculateRetryDelay attempt config u =
     (let delay0 = initialDelay config * backoffFactor config ^ attempt;
          delay1 = min delay0 (maxDelay config);
          delay2 = (if jitterEnabled config then delay1 + delay1 * 0.25 * (u - 0.5) * 2
                    else delay1)
      in max delay2 0)"

text \<open>\<open>#shouldRetry\<close>. A missing \<open>retryOn\<close> is the empty list.\<close>

definition shouldRetry :: "js_error \<Rightarrow> retry_key list \<Rightarrow> bool" where
  "shouldRetry error retryOn' =
     (if retryOn' = [] then False
      else if (case err_status error of None \<Rightarrow> False
               | Some s \<Rightarrow> s \<noteq> 0 \<and> List.member retryOn' (Status s)) then True
      else if (case err_code error of None \<Rightarrow> False
               | Some c \<Rightarrow> c \<noteq> [] \<and> List.member retryOn' (Code c)) then True
      else if List.member retryOn' (Code ''ETIMEDOUT'') \<and> sublist ''timeout'' (err_message error)
        then True
      else False)"

subsection \<open>\<open>request\<close>\<close>

text \<open>
  The arguments of a call as the validators see them; \<open>urlParses\<close> says whether
  \<open>new URL(serviceUrl)\<close> succeeds. \<open>call_retryOptions\<close> is \<open>options.retryOptions\<close> and
  \<open>call_options\<close> holds the retry keys given at the top level of \<open>options\<close>.
\<close>

record call =
  serviceUrl :: string
  urlParses :: bool
  methodName :: string
  paramsIsObject :: bool
  optionsIsObject :: bool
  call_retryOptions :: retry_options
  call_options :: retry_options

text \<open>
  \<open>validators.isNonEmptyString\<close> trims with \<open>String.prototype.trim\<close>, which removes white
  space and line terminators. Among the code units below 256 these are TAB, LF, VT, FF, CR,
  SPACE and NO-BREAK SPACE (U+00A0).
\<close>

definition is_whitespace :: "char \<Rightarrow> bool" where
  "is_whitespace c = List.member [9, 10, 11, 12, 13, 32, 160] (of_char c :: nat)"

definition isNonEmptyString :: "string \<Rightarrow> bool" where
  "isNonEmptyString v = list_ex (\<lambda>c. \<not> is_whitespace c) v"

text \<open>
  What the world supplies to attempt number \<open>k\<close>: the transport's behaviour, the two clock
  readings of the failure path, and the draw of \<open>Math.random()\<close> before the attempt.
\<close>

record attempt_env =
  transport :: transport
  failureClock :: "int \<times> int"
  random :: real

text \<open>
  What a call does outside the object, in the order it does it: \<open>Attempt k\<close> is the call
  of \<open>#makeRequest\<close> for attempt \<open>k\<close> (the only place where the class touches the
  network), \<open>Sleep d\<close> is \<open>await this.#sleep(d)\<close>.
\<close>

datatype effect = Sleep real | Attempt nat

definition no_effects :: "effect list" where
  "no_effects = []"

text \<open>The attempts of a trace, in order.\<close>

definition attempts :: "effect list \<Rightarrow> nat list" where
  "attempts fx = concat (map (\<lambda>e. case e of Attempt k \<Rightarrow> [k] | Sleep d \<Rightarrow> []) fx)"

text \<open>
  The block \<open>if (attempt > 0) { ... }\<close> at the head of the loop body: compute the delay,
  sleep, count the retry.
\<close>

definition backoff ::
  "retry_config \<Rightarrow> (nat \<Rightarrow> attempt_env) \<Rightarrow> nat \<Rightarrow> client \<Rightarrow> effect list
     \<Rightarrow> client \<times> effect list" where
  "backoff retryConfig env attempt this fx =
     (if attempt > 0 then
        (let delay = calculateRetryDelay (attempt - 1) retryConfig (random (env attempt))
         in (this\<lparr>metrics := (metrics this)\<lparr>retryCount := retryCount (metrics this) + 1\<rparr>\<rparr>,
             fx @ [Sleep delay]))
      else (this, fx))"

text \<open>
  The retry loop of \<open>request\<close>. The thrown value is \<open>Some e\<close> for an error object and
  \<open>None\<close> for \<open>undefined\<close> (\<open>lastError\<close> before any attempt has failed, which the loop
  never leaves with, as \<open>0 <= maxRetries\<close>). Every pass calls \<open>#makeRequest\<close> once.
\<close>

function retry_loop ::
  "retry_config \<Rightarrow> string \<Rightarrow> (nat \<Rightarrow> attempt_env) \<Rightarrow> nat \<Rightarrow> js_error option \<Rightarrow> client
     \<Rightarrow> effect list \<Rightarrow> (js_error option + string option) \<times> client \<times> effect list" where
  "retry_loop retryConfig url env attempt lastError this fx =
     (if attempt \<le> maxRetries retryConfig then
        (let (this1, fx1) = backoff retryConfig env attempt this fx;
             fx2 = fx1 @ [Attempt attempt];
             (outcome, this2) = executeAttempt (transport (env attempt)) this1
         in case outcome of
              Inr result \<Rightarrow> (Inr result, updateCircuitBreakerOnSuccess url this2, fx2)
            | Inl error \<Rightarrow>
                (let this3 =
                       updateCircuitBreakerOnFailure url (fst (failureClock (env attempt)))
                         (snd (failureClock (env attempt))) this2
                 in if attempt = maxRetries retryConfig then (Inl (Some error), this3, fx2)
                    else if \<not> shouldRetry error (retryOn retryConfig)
                      then (Inl (Some error), this3, fx2)
                    else retry_loop retryConfig url env (attempt + 1) (Some error) this3 fx2))
      else (Inl lastError, this, fx))"
  by pat_completeness auto
termination
  by (relation "measure (\<lambda>(rc, url, env, attempt, lastError, this, fx). maxRetries rc + 1 - attempt)")
     auto

definition request ::
  "client \<Rightarrow> call \<Rightarrow> int \<Rightarrow> (nat \<Rightarrow> attempt_env)
     \<Rightarrow> (js_error option + string option) \<times> client \<times> effect list" where
  "request this c now env =
     (if \<not> isNonEmptyString (serviceUrl c) then
        (Inl (Some (Error ''Service URL must be a non-empty string'')), this, no_effects)
      else if \<not> urlParses c then
        (Inl (Some (Error ''Service URL must be a valid URL'')), this, no_effects)
      else if \<not> isNonEmptyString (methodName c) then
        (Inl (Some (Error ''Method name must be a non-empty string'')), this, no_effects)
      else if \<not> paramsIsObject c then
        (Inl (Some (Error ''Params must be an object'')), this, no_effects)
      else if \<not> optionsIsObject c then
        (Inl (Some (Error ''Options must be an object'')), this, no_effects)
      else
        (let retryConfig =
               merge_retry (merge_retry (retry (resilience this)) (call_retryOptions c))
                 (call_options c);
             (blocked, this1) = checkCircuitBreaker (serviceUrl c) now this
         in case blocked of
              Some e \<Rightarrow> (Inl (Some e), this1, no_effects)
            | None \<Rightarrow> retry_loop retryConfig (serviceUrl c) env 0 None this1 no_effects))"

section \<open>The inbound side\<close>

text \<open>
  The inbound methods read the JWT settings and the per-method bulkhead states, and write
  the counters. They are kept in a record of their own; \<open>server_metrics\<close> is the same
  \<open>this.metrics\<close> object the outbound side writes (\<open>startTime\<close> and the running mean
  \<open>averageResponseTime\<close> are not modelled). The table of handlers \<open>this._methods\<close> is read
  by the dispatcher's lookup only, which is outside this development, and is left out.
\<close>

subsection \<open>Per-method bulkhead\<close>

text \<open>
  A limit of a bulkhead configuration is \<open>None\<close> for \<open>undefined\<close> and a number otherwise
  (a value of another type fails the validator as \<open>NaN\<close> does). In the options object a
  key may be missing (\<open>None\<close>), or given with the value \<open>undefined\<close> (\<open>Some None\<close>) or with a
  number: the spread keeps the default only for a missing key.
\<close>

record bulkhead_config =
  bulkhead_enabled :: bool
  maxConcurrentRequests :: "number option"
  maxQueueSize :: "number option"
  queueTimeout :: "number option"

record bulkhead_options =
  opt_bulkhead_enabled :: "bool option"
  opt_maxConcurrentRequests :: "number option option"
  opt_maxQueueSize :: "number option option"
  opt_queueTimeout :: "number option option"

text \<open>
  Function values are compared by identity in \<open>findIndex\<close>, so they are named: the
  \<open>resolve\<close> and \<open>reject\<close> functions of the promise with a given number, and the two
  arrow functions that \<open>#acquireMethodBulkheadPermit\<close> wraps around them before it stores
  them in the queue.
\<close>

datatype fn = Resolve nat | Reject nat | ResolveWrapper nat | RejectWrapper nat

record queued =
  q_resolve :: fn
  q_reject :: fn

record method_state =
  config :: bulkhead_config
  activeRequests :: int
  queuedRequests :: "queued list"
  rejectedRequests :: int

record server =
  jwtAuth :: bool
  jwtPublicKey :: "string option"
  jwtIssuer :: "string option"
  jwtAudience :: "string option"
  excludedPaths :: "string list"
  bulkheadState :: "string \<rightharpoonup> method_state"
  server_metrics :: metrics

text \<open>
  What lives outside the object while requests wait: the promises created by
  \<open>#acquireMethodBulkheadPermit\<close>, the queue timers that are armed (with the method name
  their callback closes over), and the number the next promise created will get, so that
  every promise is a new one.
\<close>

datatype promise = Pending | Fulfilled | Rejected js_error

record runtime =
  promises :: "nat \<rightharpoonup> promise"
  timers :: "(nat \<times> string) list"
  nextPromise :: nat

text \<open>\<open>validators.isPositiveNumber\<close>, on a value that is not \<open>undefined\<close>.\<close>

definition isPositiveNumber :: "number \<Rightarrow> bool" where
  "isPositiveNumber v = less_number (Finite 0) v"

text \<open>The test \<open>limit !== undefined && !validators.isPositiveNumber(limit)\<close>.\<close>

definition invalid_limit :: "number option \<Rightarrow> bool" where
  "invalid_limit limit = (case limit of None \<Rightarrow> False | Some v \<Rightarrow> \<not> isPositiveNumber v)"

text \<open>
  \<open>addMethod\<close>; the handler is opaque, \<open>handlerIsFunction\<close> and \<open>configIsObject\<close> are
  what the validators find.
\<close>

definition addMethod ::
  "string \<Rightarrow> bool \<Rightarrow> bool \<Rightarrow> bulkhead_options \<Rightarrow> server \<Rightarrow> js_error + server" where
  "addMethod name handlerIsFunction configIsObject bulkheadConfig this =
     (if \<not> isNonEmptyString name then Inl (Error ''Method name must be a non-empty string'')
      else if \<not> handlerIsFunction then Inl (Error ''Method handler must be a function'')
      else if \<not> configIsObject then Inl (Error ''Bulkhead config must be an object'')
      else
        (let methodBulkhead =
               \<lparr>bulkhead_enabled = spread True (opt_bulkhead_enabled bulkheadConfig),
                maxConcurrentRequests =
                  spread (Some DEFAULT_MAX_CONCURRENT) (opt_maxConcurrentRequests bulkheadConfig),
                maxQueueSize = spread (Some DEFAULT_MAX_QUEUE) (opt_maxQueueSize bulkheadConfig),
                queueTimeout =
                  spread (Some DEFAULT_QUEUE_TIMEOUT) (opt_queueTimeout bulkheadConfig)\<rparr>
         in if invalid_limit (maxConcurrentRequests methodBulkhead) then
              Inl (Error ''maxConcurrentRequests must be a positive number'')
            else if invalid_limit (maxQueueSize methodBulkhead) then
              Inl (Error ''maxQueueSize must be a positive number'')
            else if invalid_limit (queueTimeout methodBulkhead) then
              Inl (Error ''queueTimeout must be a positive number'')
            else
              Inr (this\<lparr>bulkheadState :=
                           (bulkheadState this)(name \<mapsto>
                              \<lparr>config = methodBulkhead, activeRequests = 0,
                               queuedRequests = [], rejectedRequests = 0\<rparr>)\<rparr>)))"

text \<open>Settling a promise has an effect only while it is pending.\<close>

definition settle :: "nat \<Rightarrow> promise \<Rightarrow> runtime \<Rightarrow> runtime" where
  "settle p v rt =
     (case promises rt p of
        Some Pending \<Rightarrow> rt\<lparr>promises := (promises rt)(p \<mapsto> v)\<rparr>
      | _ \<Rightarrow> rt)"

definition clearTimeout :: "nat \<Rightarrow> runtime \<Rightarrow> runtime" where
  "clearTimeout p rt = rt\<lparr>timers := filter (\<lambda>(q, m). q \<noteq> p) (timers rt)\<rparr>"

text \<open>Calling a stored function with \<open>{ acquired: true }\<close>, as \<open>next.resolve(...)\<close> does.\<close>

fun invoke :: "fn \<Rightarrow> runtime \<Rightarrow> runtime" where
  "invoke (Resolve p) rt = settle p Fulfilled rt"
| "invoke (ResolveWrapper p) rt = settle p Fulfilled (clearTimeout p rt)"
| "invoke (Reject p) rt = settle p (Rejected (Error [])) rt"
| "invoke (RejectWrapper p) rt = settle p (Rejected (Error [])) (clearTimeout p rt)"

fun promise_of :: "fn \<Rightarrow> nat" where
  "promise_of (Resolve p) = p"
| "promise_of (ResolveWrapper p) = p"
| "promise_of (Reject p) = p"
| "promise_of (RejectWrapper p) = p"

datatype acquired = Acquired | Waiting nat | Threw js_error

text \<open>The comparison \<open>count < limit\<close> of a counter with a limit; \<open>undefined\<close> makes it false.\<close>

definition below :: "int \<Rightarrow> number option \<Rightarrow> bool" where
  "below n limit = (case limit of None \<Rightarrow> False | Some m \<Rightarrow> less_number (number_of_int n) m)"

text \<open>
  \<open>#acquireMethodBulkheadPermit\<close>. When the call has to queue it creates a promise, arms
  the queue timer and pushes the two wrappers.
\<close>

definition acquireMethodBulkheadPermit ::
  "string \<Rightarrow> server \<Rightarrow> runtime \<Rightarrow> acquired \<times> server \<times> runtime" where
  "acquireMethodBulkheadPermit name this rt =
     (case bulkheadState this name of
        None \<Rightarrow> (Acquired, this, rt)
      | Some methodState \<Rightarrow>
          if \<not> bulkhead_enabled (config methodState) then (Acquired, this, rt)
          else if below (activeRequests methodState) (maxConcurrentRequests (config methodState))
          then
            (Acquired,
             this\<lparr>bulkheadState :=
                    (bulkheadState this)(name \<mapsto>
                       methodState\<lparr>activeRequests := activeRequests methodState + 1\<rparr>)\<rparr>,
             rt)
          else if below (int (length (queuedRequests methodState)))
                    (maxQueueSize (config methodState))
          then
            (let p = nextPromise rt
             in (Waiting p,
                 this\<lparr>bulkheadState :=
                        (bulkheadState this)(name \<mapsto>
                           methodState\<lparr>queuedRequests :=
                                         queuedRequests methodState @
                                           [\<lparr>q_resolve = ResolveWrapper p,
                                             q_reject = RejectWrapper p\<rparr>]\<rparr>)\<rparr>,
                 rt\<lparr>promises := (promises rt)(p \<mapsto> Pending),
                    timers := timers rt @ [(p, name)],
                    nextPromise := p + 1\<rparr>))
          else
            (Threw (Error (''Method '' @ name @
                           '' bulkhead capacity exceeded - request rejected'')),
             this\<lparr>bulkheadState :=
                    (bulkheadState this)(name \<mapsto>
                       methodState\<lparr>rejectedRequests := rejectedRequests methodState + 1\<rparr>),
                  server_metrics :=
                    (server_metrics this)\<lparr>bulkheadRejections :=
                                              bulkheadRejections (server_metrics this) + 1\<rparr>\<rparr>,
             rt))"

fun findIndex :: "('a \<Rightarrow> bool) \<Rightarrow> 'a list \<Rightarrow> int" where
  "findIndex P [] = - 1"
| "findIndex P (x # xs) =
     (if P x then 0 else (let i = findIndex P xs in if i = - 1 then - 1 else i + 1))"

text \<open>\<open>xs.splice(index, 1)\<close> for an index that \<open>findIndex\<close> returned.\<close>

definition splice_one :: "'a list \<Rightarrow> int \<Rightarrow> 'a list" where
  "splice_one xs index = take (nat index) xs @ drop (nat index + 1) xs"

text \<open>
  The callback of the queue timer of promise \<open>p\<close>. It runs only while the timer is armed.
  It looks in the queue for an item whose \<open>resolve\<close> is the promise's own \<open>resolve\<close>
  function, removes it if there is one, and rejects the promise.
\<close>

definition queueTimerFires :: "nat \<Rightarrow> server \<Rightarrow> runtime \<Rightarrow> server \<times> runtime" where
  "queueTimerFires p this rt =
     (case map_of (timers rt) p of
        None \<Rightarrow> (this, rt)
      | Some name \<Rightarrow>
          (let rt1 = clearTimeout p rt;
               rt2 = settle p
                       (Rejected (Error (''Method '' @ name @ '' bulkhead queue timeout'')))
                       rt1
           in case bulkheadState this name of
                None \<Rightarrow> (this, rt2)
              | Some methodState \<Rightarrow>
                  (let index = findIndex (\<lambda>item. q_resolve item = Resolve p)
                                 (queuedRequests methodState)
                   in if index \<noteq> - 1 then
                        (this\<lparr>bulkheadState :=
                                (bulkheadState this)(name \<mapsto>
                                   methodState\<lparr>queuedRequests :=
                                     splice_one (queuedRequests methodState) index\<rparr>)\<rparr>,
                         rt2)
                      else (this, rt2))))"

text \<open>\<open>#releaseMethodBulkheadPermit\<close>.\<close>

definition releaseMethodBulkheadPermit :: "string \<Rightarrow> server \<Rightarrow> runtime \<Rightarrow> server \<times> runtime" where
  "releaseMethodBulkheadPermit name this rt =
     (case bulkheadState this name of
        None \<Rightarrow> (this, rt)
      | Some methodState \<Rightarrow>
          if \<not> bulkhead_enabled (config methodState) then (this, rt)
          else
            (let ms1 = methodState\<lparr>activeRequests := activeRequests methodState - 1\<rparr>
             in case queuedRequests ms1 of
                  [] \<Rightarrow> (this\<lparr>bulkheadState := (bulkheadState this)(name \<mapsto> ms1)\<rparr>, rt)
                | next # rest \<Rightarrow>
                    (this\<lparr>bulkheadState :=
                            (bulkheadState this)(name \<mapsto>
                               ms1\<lparr>queuedRequests := rest,
                                   activeRequests := activeRequests ms1 + 1\<rparr>)\<rparr>,
                     invoke (q_resolve next) rt)))"

text \<open>
  The bulkhead as the event loop drives it: a request asks for a permit, a handler that
  held one finishes, a queue timer expires.
\<close>

datatype bulkhead_event = Acquire string | Release string | QueueTimer nat

fun bulkhead_step :: "server \<times> runtime \<Rightarrow> bulkhead_event \<Rightarrow> server \<times> runtime" where
  "bulkhead_step (this, rt) (Acquire name) = snd (acquireMethodBulkheadPermit name this rt)"
| "bulkhead_step (this, rt) (Release name) = releaseMethodBulkheadPermit name this rt"
| "bulkhead_step (this, rt) (QueueTimer p) = queueTimerFires p this rt"

definition bulkhead_run :: "server \<times> runtime \<Rightarrow> bulkhead_event list \<Rightarrow> server \<times> runtime" where
  "bulkhead_run = foldl bulkhead_step"

text \<open>The promises of the requests that wait in a method's queue, in queue order.\<close>

definition waiting :: "string \<Rightarrow> server \<Rightarrow> nat list" where
  "waiting name this =
     (case bulkheadState this name of
        None \<Rightarrow> []
      | Some methodState \<Rightarrow> map (\<lambda>item. promise_of (q_resolve item)) (queuedRequests methodState))"

text \<open>
  What one step does to the waiters of a method, read off the states before and after it:
  the promise it put into the queue, if the step is a request of this method that had to
  queue, and the waiters it admitted, those whose promise was pending before the step
  and is fulfilled after it.
\<close>

definition enqueued_by :: "string \<Rightarrow> server \<times> runtime \<Rightarrow> bulkhead_event \<Rightarrow> nat list" where
  "enqueued_by name s e =
     (case e of
        Acquire n \<Rightarrow>
          if n = name then
            (case fst (acquireMethodBulkheadPermit n (fst s) (snd s)) of
               Waiting p \<Rightarrow> [p]
             | _ \<Rightarrow> [])
          else []
      | _ \<Rightarrow> [])"

definition admitted_by :: "string \<Rightarrow> server \<times> runtime \<Rightarrow> server \<times> runtime \<Rightarrow> nat list" where
  "admitted_by name s s' =
     filter (\<lambda>p. promises (snd s) p = Some Pending \<and> promises (snd s') p = Some Fulfilled)
       (waiting name (fst s))"






text \<open>The part of the constructor that sets up the inbound side.\<close>

record server_options =
  opt_jwtAuth :: "bool option"
  opt_jwtPublicKey :: "string option"
  opt_jwtIssuer :: "string option"
  opt_jwtAudience :: "string option"
  opt_excludedPaths :: "string list option"

definition or_null :: "string option \<Rightarrow> string option" where
  "or_null v = (if truthy_string v then v else None)"

definition constructor_server :: "server_options \<Rightarrow> server" where
  "constructor_server options =
     \<lparr>jwtAuth = spread False (opt_jwtAuth options),
      jwtPublicKey = or_null (opt_jwtPublicKey options),
      jwtIssuer = or_null (opt_jwtIssuer options),
      jwtAudience = or_null (opt_jwtAudience options),
      excludedPaths = ''health-check'' # spread [] (opt_excludedPaths options),
      bulkheadState = Map.empty,
      server_metrics = initial_metrics\<rparr>"

definition no_server_options :: server_options where
  "no_server_options =
     \<lparr>opt_jwtAuth = None, opt_jwtPublicKey = None, opt_jwtIssuer = None,
      opt_jwtAudience = None, opt_excludedPaths = None\<rparr>"

definition no_bulkhead_options :: bulkhead_options where
  "no_bulkhead_options =
     \<lparr>opt_bulkhead_enabled = None, opt_maxConcurrentRequests = None, opt_maxQueueSize = None,
      opt_queueTimeout = None\<rparr>"

text \<open>No promise has been created yet.\<close>

definition fresh_runtime :: runtime where
  "fresh_runtime = \<lparr>promises = Map.empty, timers = [], nextPromise = 0\<rparr>"

subsection \<open>JWT validation and the authorisation check\<close>














subsection \<open>The dispatcher\<close>

text \<open>
  A response is the status code and the JSON body, as \<open>#sendResponse\<close> is given them; a
  field whose value is \<open>undefined\<close> is \<open>None\<close>. The health report's content is not
  modelled.
\<close>

datatype response_body = Empty | HealthReport
  | ErrorBody string "string option" "(string \<times> string) list"
  | DataBody "string option"

record response =
  statusCode :: nat
  body :: response_body

definition updateMetrics :: "bool \<Rightarrow> server \<Rightarrow> server" where
  "updateMetrics isError this =
     this\<lparr>server_metrics :=
            (server_metrics this)
              \<lparr>requestCount := requestCount (server_metrics this) + 1,
               errorCount := errorCount (server_metrics this) + (if isError then 1 else 0)\<rparr>\<rparr>"



text \<open>
  The step \<open>Acquire method bulkhead permit\<close> of the \<open>end\<close> handler, which the handler
  reaches with the method found and the body parsed: the \<open>await\<close> of
  \<open>#acquireMethodBulkheadPermit\<close> inside its \<open>try\<close>. The request is then answered by the
  \<open>catch (bulkheadError)\<close> block, suspended on the promise of a queued permit, or it goes
  on to run its handler. \<open>#sendResponse\<close> is taken to succeed.
\<close>

datatype dispatch = Sent response | Suspended nat | Running

text \<open>The \<open>catch (bulkheadError)\<close> block.\<close>

definition bulkheadRejection :: "string \<Rightarrow> response" where
  "bulkheadRejection path =
     \<lparr>statusCode = 503,
      body = ErrorBody ''METHOD_BULKHEAD_EXCEEDED'' (Some (''Method '' @ path @ '' is overloaded''))
               [(''method'', path), (''reason'', ''bulkhead_capacity_exceeded'')]\<rparr>"

definition acquirePermitStep :: "string \<Rightarrow> server \<Rightarrow> runtime \<Rightarrow> dispatch \<times> server \<times> runtime" where
  "acquirePermitStep path this rt =
     (case acquireMethodBulkheadPermit path this rt of
        (Threw bulkheadError, this1, rt1) \<Rightarrow>
          (Sent (bulkheadRejection path), updateMetrics True this1, rt1)
      | (Waiting q, this1, rt1) \<Rightarrow> (Suspended q, this1, rt1)
      | (Acquired, this1, rt1) \<Rightarrow> (Running, this1, rt1))"

text \<open>
  The same \<open>await\<close> when the request was suspended and its promise has been settled:
  fulfilled, the handler runs; rejected, the \<open>catch (bulkheadError)\<close> block answers.
\<close>

definition onPermitSettled :: "string \<Rightarrow> nat \<Rightarrow> server \<Rightarrow> runtime \<Rightarrow> dispatch \<times> server" where
  "onPermitSettled path p this rt =
     (case promises rt p of
        Some Fulfilled \<Rightarrow> (Running, this)
      | Some (Rejected bulkheadError) \<Rightarrow> (Sent (bulkheadRejection path), updateMetrics True this)
      | _ \<Rightarrow> (Suspended p, this))"

subsection \<open>Concrete calls and peers used below\<close>

definition default_client :: client where
  "default_client = constructor_client no_resilience_options no_retry_options"

definition plain_call :: call where
  "plain_call =
     \<lparr>serviceUrl = ''http://peer:3000'', urlParses = True, methodName = ''echo'',
      paramsIsObject = True, optionsIsObject = True, call_retryOptions = no_retry_options,
      call_options = no_retry_options\<rparr>"

text \<open>
  A peer that answers every attempt after 2 ms with the given envelope; the clock reads
  1000 at every failure.
\<close>

definition answering :: "envelope \<Rightarrow> nat \<Rightarrow> attempt_env" where
  "answering response k =
     \<lparr>transport = Connect 1 (End 1 (Parsed response)), failureClock = (1000, 1000),
      random = 1 / 2\<rparr>"

definition internal_error_envelope :: envelope where
  "internal_error_envelope =
     \<lparr>env_error = Some ''INTERNAL_ERROR'', env_message = Some ''Internal server error'',
      env_status = None, env_data = None\<rparr>"





text \<open>A peer that never completes the connection.\<close>

definition never_connects :: "nat \<Rightarrow> attempt_env" where
  "never_connects k = \<lparr>transport = NoConnect, failureClock = (1000, 1000), random = 1 / 2\<rparr>"

text \<open>
  The stream of a connected session exceeds the request timeout: it ends or fails no
  earlier than \<open>ms\<close> after the connect, or never.
\<close>

definition exceeds :: "nat \<Rightarrow> stream \<Rightarrow> bool" where
  "exceeds ms s =
     (case s of End d data \<Rightarrow> ms \<le> d | StreamError d e \<Rightarrow> ms \<le> d | Silent \<Rightarrow> True)"

text \<open>The session is not ready within the connection timeout.\<close>

definition not_ready_within :: "nat \<Rightarrow> transport \<Rightarrow> bool" where
  "not_ready_within ms tr =
     (case tr of ConnectThrows e \<Rightarrow> False | ClientError t e \<Rightarrow> ms \<le> t | NoConnect \<Rightarrow> True
      | Connect t s \<Rightarrow> ms \<le> t)"

text \<open>
  Consecutive outcomes reported to one breaker: failures with their clock readings, and a
  number of successes.
\<close>

definition afterFailures :: "string \<Rightarrow> (int \<times> int) list \<Rightarrow> client \<Rightarrow> client" where
  "afterFailures url clocks this =
     foldl (\<lambda>s (tL, now). updateCircuitBreakerOnFailure url tL now s) this clocks"

definition afterSuccesses :: "string \<Rightarrow> nat \<Rightarrow> client \<Rightarrow> client" where
  "afterSuccesses url n this = (updateCircuitBreakerOnSuccess url ^^ n) this"


text \<open>An endpoint built with \<open>circuitBreaker: { enabled: false, failureThreshold: 1 }\<close>.\<close>

definition breaker_off_client :: client where
  "breaker_off_client =
     constructor_client
       (no_resilience_options
          \<lparr>opt_circuitBreaker :=
             no_circuitBreaker_options
               \<lparr>opt_circuitBreaker_enabled := Some False, opt_failureThreshold := Some 1\<rparr>\<rparr>)
       no_retry_options"


text \<open>The default endpoint after five consecutive failures against the peer.\<close>

definition tripped_client :: client where
  "tripped_client =
     afterFailures ''http://peer:3000''
       [(1000, 1000), (2000, 2000), (3000, 3000), (4000, 4000), (5000, 5001)] default_client"



text \<open>The endpoint with the breaker disabled, after one call that the peer failed.\<close>

definition refused_client :: client where
  "refused_client =
     fst (snd (request breaker_off_client plain_call 0 (answering internal_error_envelope)))"

text \<open>A call with \<open>{ initialDelay: -100, jitterEnabled: false }\<close>.\<close>

definition hasty_call :: call where
  "hasty_call =
     plain_call\<lparr>call_options :=
                  no_retry_options\<lparr>opt_initialDelay := Some (- 100),
                                   opt_jitterEnabled := Some False\<rparr>\<rparr>"

text \<open>The retry configuration \<open>request\<close> merges for a call.\<close>

definition merged_retry :: "client \<Rightarrow> call \<Rightarrow> retry_config" where
  "merged_retry this c =
     merge_retry (merge_retry (retry (resilience this)) (call_retryOptions c)) (call_options c)"

text \<open>
  The trace of a call that makes \<open>n\<close> attempts, in the words of the specification: the
  attempts in order, and between attempt \<open>k\<close> and attempt \<open>k + 1\<close> one sleep, of the delay
  computed for \<open>k\<close> with the jitter draw made at that point.
\<close>

fun schedule :: "retry_config \<Rightarrow> (nat \<Rightarrow> attempt_env) \<Rightarrow> nat \<Rightarrow> effect list" where
  "schedule rc env 0 = []"
| "schedule rc env (Suc 0) = [Attempt 0]"
| "schedule rc env (Suc (Suc k)) =
     schedule rc env (Suc k)
       @ [Sleep (calculateRetryDelay k rc (random (env (Suc k)))), Attempt (Suc k)]"

text \<open>
  A server with one method, \<open>echo\<close>, registered with
  \<open>{ maxConcurrentRequests: 1, maxQueueSize: 1 }\<close>, and one registered with
  \<open>{ maxConcurrentRequests: 0.5, maxQueueSize: 0.5 }\<close>.
\<close>

definition tight_bulkhead :: bulkhead_options where
  "tight_bulkhead =
     no_bulkhead_options\<lparr>opt_maxConcurrentRequests := Some (Some (Finite 1)),
                         opt_maxQueueSize := Some (Some (Finite 1))\<rparr>"

definition echo_server :: server where
  "echo_server =
     (case addMethod ''echo'' True True tight_bulkhead (constructor_server no_server_options) of
        Inl e \<Rightarrow> constructor_server no_server_options
      | Inr this \<Rightarrow> this)"

definition half_bulkhead :: bulkhead_options where
  "half_bulkhead =
     no_bulkhead_options\<lparr>opt_maxConcurrentRequests := Some (Some (Finite (1 / 2))),
                         opt_maxQueueSize := Some (Some (Finite (1 / 2)))\<rparr>"

definition half_server :: server where
  "half_server =
     (case addMethod ''echo'' True True half_bulkhead (constructor_server no_server_options) of
        Inl e \<Rightarrow> constructor_server no_server_options
      | Inr this \<Rightarrow> this)"

text \<open>
  The first server with one request running and a second one queued; its promise is
  promise 0.
\<close>

definition busy_echo :: "server \<times> runtime" where
  "busy_echo = bulkhead_run (echo_server, fresh_runtime) [Acquire ''echo'', Acquire ''echo'']"


subsection \<open>The order of the JWT checks, in the words of the specification\<close>












section \<open>Properties\<close>

declare retry_loop.simps [simp del]

declare show_nat.simps [simp del]

lemmas config_defs =
  constructor_client_def constructor_resilience_def no_resilience_options_def
  no_retry_options_def no_timeout_options_def no_circuitBreaker_options_def merge_retry_def
  spread_def initial_metrics_def DEFAULT_REQUEST_TIMEOUT_def DEFAULT_CONNECTION_TIMEOUT_def
  DEFAULT_FAILURE_THRESHOLD_def DEFAULT_RECOVERY_TIMEOUT_def DEFAULT_SUCCESS_THRESHOLD_def
  DEFAULT_MAX_RETRIES_def DEFAULT_INITIAL_DELAY_def DEFAULT_MAX_DELAY_def
  DEFAULT_BACKOFF_FACTOR_def DEFAULT_RETRY_ON_def DEFAULT_JITTER_def

lemmas run_defs =
  request_def checkCircuitBreaker_def getCircuitBreakerState_def
  updateCircuitBreakerOnFailure_def updateCircuitBreakerOnSuccess_def executeAttempt_def
  makeRequest_def createTimeoutPromise_def wrapper_fires_first_def onEnd_def shouldRetry_def
  calculateRetryDelay_def backoff_def isNonEmptyString_def is_whitespace_def truthy_string_def
  or_string_def or_number_def new_circuit_def no_effects_def Error_def
  connection_timeout_error_def request_timeout_error_def Let_def

subsection \<open>Constructor defaults\<close>

text \<open>
  C8 (as amended). When the constructor receives no
  \<open>resilience.circuitBreaker.recoveryTimeout\<close> option, the effective recovery timeout of
  the circuit breaker is \<open>DEFAULTS.RESILIENCE.CIRCUIT_BREAKER.RECOVERY_TIMEOUT\<close>, which is
  10000 ms, whatever the other options are.
\<close>

theorem default_recoveryTimeout:
  "opt_recoveryTimeout (opt_circuitBreaker ro) = None \<Longrightarrow>
   recoveryTimeout (circuitBreaker (constructor_resilience ro legacy)) = 10000"
  by (simp add: constructor_resilience_def spread_def DEFAULT_RECOVERY_TIMEOUT_def)

theorem default_recoveryTimeout_witness:
  "opt_recoveryTimeout (opt_circuitBreaker no_resilience_options) = None \<and>
   recoveryTimeout (circuitBreaker (constructor_resilience no_resilience_options no_retry_options))
     = 10000"
proof -
  have h: "opt_recoveryTimeout (opt_circuitBreaker no_resilience_options) = None"
    by (simp add: no_resilience_options_def no_circuitBreaker_options_def)
  show ?thesis using h default_recoveryTimeout [OF h, of no_retry_options] by simp
qed

text \<open>
  C8 as stated fails: constructed without any option, the endpoint's recovery timeout is
  not 60000 ms.
\<close>

theorem default_recoveryTimeout_is_not_60000:
  "recoveryTimeout (circuitBreaker (resilience default_client)) \<noteq> 60000"
  by (simp add: default_client_def config_defs)

subsection \<open>The retry loop, one pass at a time\<close>

lemma attempts_Nil [simp]: "attempts [] = []"
  by (simp add: attempts_def)

lemma attempts_append [simp]: "attempts (xs @ ys) = attempts xs @ attempts ys"
  by (simp add: attempts_def)

lemma attempts_Attempt [simp]: "attempts (Attempt k # xs) = k # attempts xs"
  by (simp add: attempts_def)

lemma attempts_Sleep [simp]: "attempts (Sleep d # xs) = attempts xs"
  by (simp add: attempts_def)

lemma retry_loop_exit:
  "\<not> a \<le> maxRetries rc \<Longrightarrow> retry_loop rc url env a le this fx = (Inl le, this, fx)"
  by (simp add: retry_loop.simps)

lemma retry_loop_success:
  "a \<le> maxRetries rc \<Longrightarrow> backoff rc env a this fx = (this1, fx1) \<Longrightarrow>
   executeAttempt (transport (env a)) this1 = (Inr v, this2) \<Longrightarrow>
   retry_loop rc url env a le this fx =
     (Inr v, updateCircuitBreakerOnSuccess url this2, fx1 @ [Attempt a])"
  by (simp add: retry_loop.simps [of rc url env a])

lemma retry_loop_stop:
  "a \<le> maxRetries rc \<Longrightarrow> backoff rc env a this fx = (this1, fx1) \<Longrightarrow>
   executeAttempt (transport (env a)) this1 = (Inl e, this2) \<Longrightarrow>
   a = maxRetries rc \<or> \<not> shouldRetry e (retryOn rc) \<Longrightarrow>
   retry_loop rc url env a le this fx =
     (Inl (Some e),
      updateCircuitBreakerOnFailure url (fst (failureClock (env a))) (snd (failureClock (env a))) this2,
      fx1 @ [Attempt a])"
  by (auto simp add: retry_loop.simps [of rc url env a] Let_def)

lemma retry_loop_again:
  "a \<le> maxRetries rc \<Longrightarrow> backoff rc env a this fx = (this1, fx1) \<Longrightarrow>
   executeAttempt (transport (env a)) this1 = (Inl e, this2) \<Longrightarrow>
   a \<noteq> maxRetries rc \<Longrightarrow> shouldRetry e (retryOn rc) \<Longrightarrow>
   retry_loop rc url env a le this fx =
     retry_loop rc url env (a + 1) (Some e)
       (updateCircuitBreakerOnFailure url (fst (failureClock (env a))) (snd (failureClock (env a))) this2)
       (fx1 @ [Attempt a])"
  by (simp add: retry_loop.simps [of rc url env a] Let_def)


lemma backoff_schedule:
  "backoff rc env a this (schedule rc env a) = (this1, fx1) \<Longrightarrow>
   fx1 @ [Attempt a] = schedule rc env (Suc a)"
  by (cases a) (auto simp add: backoff_def Let_def)


text \<open>From attempt \<open>a\<close> on, the loop extends the schedule of \<open>a\<close> attempts to a longer one.\<close>

lemma retry_loop_schedule:
  "retry_loop rc url env a le this (schedule rc env a) = (r, this', fx') \<Longrightarrow>
   \<exists>n. fx' = schedule rc env n"
proof (induction "maxRetries rc + 1 - a" arbitrary: a le this)
  case 0
  then have "\<not> a \<le> maxRetries rc" by simp
  with "0.prems" have "fx' = schedule rc env a" by (simp add: retry_loop_exit)
  then show ?case by blast
next
  case (Suc m)
  then have le: "a \<le> maxRetries rc" by simp
  obtain this1 fx1 where bo: "backoff rc env a this (schedule rc env a) = (this1, fx1)"
    by (cases "backoff rc env a this (schedule rc env a)")
  obtain outcome this2 where ex: "executeAttempt (transport (env a)) this1 = (outcome, this2)"
    by (cases "executeAttempt (transport (env a)) this1")
  note next_schedule = backoff_schedule [OF bo]
  show ?case
  proof (cases outcome)
    case (Inr v)
    with Suc.prems retry_loop_success [OF le bo] ex next_schedule
    have "fx' = schedule rc env (Suc a)" by simp
    then show ?thesis by blast
  next
    case (Inl e)
    show ?thesis
    proof (cases "a = maxRetries rc \<or> \<not> shouldRetry e (retryOn rc)")
      case True
      with Suc.prems retry_loop_stop [OF le bo] ex Inl next_schedule
      have "fx' = schedule rc env (Suc a)" by simp
      then show ?thesis by blast
    next
      case False
      then have rec: "retry_loop rc url env (Suc a) (Some e)
          (updateCircuitBreakerOnFailure url (fst (failureClock (env a))) (snd (failureClock (env a))) this2)
          (schedule rc env (Suc a)) = (r, this', fx')"
        using Suc.prems retry_loop_again [OF le bo, of e this2 url le] ex Inl next_schedule
        by simp
      have m: "m = maxRetries rc + 1 - Suc a" using Suc.hyps(2) by simp
      from Suc.hyps(1) [OF m rec] show ?thesis .
    qed
  qed
qed

lemma request_cases:
  assumes "request this c now env = (r, this', fx')"
  shows "fx' = [] \<or>
         (\<exists>this1. retry_loop (merged_retry this c) (serviceUrl c) env 0 None this1 []
                    = (r, this', fx'))"
  using assms
  by (auto simp add: request_def merged_retry_def no_effects_def Let_def
      split: if_splits prod.splits option.splits)

lemma attempts_schedule: "attempts (schedule rc env n) = [0..<n]"
  by (induction rc env n rule: schedule.induct) simp_all

lemma schedule_last: "\<exists>xs. schedule rc env (Suc k) = xs @ [Attempt k]"
  by (cases k) simp_all

lemma schedule_sublist:
  "Suc k < n \<Longrightarrow>
   sublist [Attempt k, Sleep (calculateRetryDelay k rc (random (env (Suc k)))), Attempt (Suc k)]
     (schedule rc env n)"
proof (induction rc env n rule: schedule.induct)
  case (1 rc env)
  then show ?case by simp
next
  case (2 rc env)
  then show ?case by simp
next
  case (3 rc env m)
  show ?case
  proof (cases "k = m")
    case True
    from schedule_last [of rc env m] obtain xs where xs: "schedule rc env (Suc m) = xs @ [Attempt m]"
      by blast
    have "schedule rc env (Suc (Suc m)) =
            xs @ [Attempt m, Sleep (calculateRetryDelay m rc (random (env (Suc m)))),
                  Attempt (Suc m)] @ []"
      by (simp add: xs)
    then show ?thesis unfolding True sublist_def by blast
  next
    case False
    with 3 have "sublist [Attempt k, Sleep (calculateRetryDelay k rc (random (env (Suc k)))),
                          Attempt (Suc k)] (schedule rc env (Suc m))"
      by simp
    then show ?thesis by (simp add: sublist_append)
  qed
qed

subsection \<open>Back-off delays\<close>

lemma calculateRetryDelay_formula:
  fixes u :: real
  shows "(jitterEnabled c \<longrightarrow>
           calculateRetryDelay k c u =
             max 0 (min (initialDelay c * backoffFactor c ^ k) (maxDelay c)
                    + min (initialDelay c * backoffFactor c ^ k) (maxDelay c) * 0.25 * (2 * u - 1)))
       \<and> (\<not> jitterEnabled c \<longrightarrow>
           calculateRetryDelay k c u
             = max 0 (min (initialDelay c * backoffFactor c ^ k) (maxDelay c)))
       \<and> (0 \<le> u \<and> u < 1 \<longrightarrow>
           0 \<le> calculateRetryDelay k c u
           \<and> calculateRetryDelay k c u
               \<le> max 0 (min (initialDelay c * backoffFactor c ^ k) (maxDelay c)) * 1.25)"
proof -
  define d where "d = min (initialDelay c * backoffFactor c ^ k) (maxDelay c)"
  have jit: "d + d * 0.25 * (u - 0.5) * 2 = d + d * 0.25 * (2 * u - 1)"
    by (simp add: algebra_simps)
  have A: "jitterEnabled c \<Longrightarrow> calculateRetryDelay k c u = max 0 (d + d * 0.25 * (2 * u - 1))"
  proof -
    assume j: "jitterEnabled c"
    have "calculateRetryDelay k c u = max (d + d * 0.25 * (u - 0.5) * 2) 0"
      unfolding calculateRetryDelay_def Let_def d_def [symmetric] using j by simp
    then show ?thesis by (simp only: jit max.commute)
  qed
  have B: "\<not> jitterEnabled c \<Longrightarrow> calculateRetryDelay k c u = max 0 d"
    unfolding calculateRetryDelay_def Let_def d_def [symmetric] by (simp add: max.commute)
  have C: "0 \<le> calculateRetryDelay k c u \<and> calculateRetryDelay k c u \<le> max 0 d * 1.25"
    if u: "0 \<le> u" "u < 1"
  proof (cases "0 \<le> d")
    case True
    have du: "d * u \<le> d" using True u by (simp add: mult_left_le)
    have du0: "0 \<le> d * u" using True u by simp
    have "d + d * 0.25 * (u - 0.5) * 2 \<le> d * 1.25" using du by (simp add: algebra_simps)
    moreover have "0 \<le> d + d * 0.25 * (u - 0.5) * 2" using du0 True by (simp add: algebra_simps)
    ultimately show ?thesis
      unfolding calculateRetryDelay_def Let_def d_def [symmetric] using True by auto
  next
    case False
    then have neg: "d < 0" by simp
    have "d * u \<le> 0" using neg u by (simp add: mult_nonpos_nonneg)
    then have "d + d * 0.25 * (u - 0.5) * 2 \<le> 0" using neg by (simp add: algebra_simps)
    then show ?thesis
      unfolding calculateRetryDelay_def Let_def d_def [symmetric] using neg by auto
  qed
  show ?thesis using A B C unfolding d_def by blast
qed

text \<open>
  C6 (as amended). Take any call of \<open>request\<close> that went on to attempt \<open>k + 1\<close>. In the
  trace of the call, attempt \<open>k\<close> is followed at once by one sleep and the sleep by
  attempt \<open>k + 1\<close>, and the whole trace is the schedule of its attempts, so this is the
  only sleep between the two. The delay slept is \<open>#calculateRetryDelay(k)\<close> on the call's
  merged retry configuration with the jitter draw \<open>U\<close> made at that point. With
  \<open>d = min(initialDelay * backoffFactor^k, maxDelay)\<close>: when jitter is enabled the delay
  is \<open>max(0, d + d * 0.25 * (2U - 1))\<close>; when jitter is disabled it is \<open>max(0, d)\<close>, which
  is \<open>d\<close> unless \<open>d\<close> is negative; and for \<open>U\<close> in \<open>[0, 1)\<close> it lies in
  \<open>[0, max(0, d) * 1.25]\<close>.
\<close>

theorem backoff_delay:
  fixes k :: nat
  assumes run: "request this c now env = (r, this', fx')"
    and made: "Suc k \<in> set (attempts fx')"
  shows "let rc = merged_retry this c;
             d = min (initialDelay rc * backoffFactor rc ^ k) (maxDelay rc);
             U = random (env (Suc k));
             delay = calculateRetryDelay k rc U
         in sublist [Attempt k, Sleep delay, Attempt (Suc k)] fx'
            \<and> fx' = schedule rc env (length (attempts fx'))
            \<and> (jitterEnabled rc \<longrightarrow> delay = max 0 (d + d * 0.25 * (2 * U - 1)))
            \<and> (\<not> jitterEnabled rc \<longrightarrow> delay = max 0 d)
            \<and> (0 \<le> U \<and> U < 1 \<longrightarrow> 0 \<le> delay \<and> delay \<le> max 0 d * 1.25)"
proof -
  define rc where "rc = merged_retry this c"
  from request_cases [OF run] made obtain this1 where
    "retry_loop rc (serviceUrl c) env 0 None this1 (schedule rc env 0) = (r, this', fx')"
    by (auto simp add: rc_def)
  from retry_loop_schedule [OF this] obtain n where n: "fx' = schedule rc env n" by blast
  have len: "length (attempts fx') = n" by (simp add: n attempts_schedule)
  from made have "Suc k < n" by (simp add: n attempts_schedule)
  from schedule_sublist [OF this, of rc env]
  have "sublist [Attempt k, Sleep (calculateRetryDelay k rc (random (env (Suc k)))),
                 Attempt (Suc k)] fx'"
    by (simp add: n)
  with calculateRetryDelay_formula [of rc k "random (env (Suc k))"] n len show ?thesis
    unfolding Let_def rc_def [symmetric] by simp
qed



lemma trace_example:
  "snd (snd (request default_client plain_call 0 (answering internal_error_envelope)))
     = [Attempt 0, Sleep 500, Attempt 1, Sleep 1000, Attempt 2, Sleep 2000, Attempt 3]"
  by (simp add: run_defs config_defs retry_loop.simps default_client_def plain_call_def
      answering_def internal_error_envelope_def)

lemma merged_default: "merged_retry default_client plain_call = retry (resilience default_client)"
  by (simp add: merged_retry_def default_client_def plain_call_def config_defs)

theorem backoff_delay_witness:
  "Suc 1 \<in> set (attempts (snd (snd (request default_client plain_call 0
                                       (answering internal_error_envelope)))))
   \<and> sublist [Attempt 1, Sleep 1000, Attempt (Suc 1)]
       (snd (snd (request default_client plain_call 0 (answering internal_error_envelope))))
   \<and> calculateRetryDelay 1 (merged_retry default_client plain_call)
       (random (answering internal_error_envelope (Suc 1))) = 1000"
proof -
  have run: "request default_client plain_call 0 (answering internal_error_envelope)
    = (fst (request default_client plain_call 0 (answering internal_error_envelope)),
       fst (snd (request default_client plain_call 0 (answering internal_error_envelope))),
       snd (snd (request default_client plain_call 0 (answering internal_error_envelope))))"
    by simp
  have made: "Suc 1 \<in> set (attempts (snd (snd (request default_client plain_call 0
                                       (answering internal_error_envelope)))))"
    by (simp add: trace_example)
  have delay: "calculateRetryDelay 1 (merged_retry default_client plain_call)
       (random (answering internal_error_envelope (Suc 1))) = 1000"
    unfolding merged_default
    by (simp add: default_client_def config_defs calculateRetryDelay_def answering_def)
  from backoff_delay [OF run made] show ?thesis
    using made delay by (simp add: Let_def)
qed

text \<open>
  C6 as stated fails. A call with \<open>{ initialDelay: -100, jitterEnabled: false }\<close> against
  a peer that keeps failing sleeps 0 ms between its attempts, while \<open>d\<close> is -100 for
  \<open>k = 0\<close>.
\<close>

theorem negative_delay_is_not_slept:
  "snd (snd (request default_client hasty_call 0 (answering internal_error_envelope)))
     = [Attempt 0, Sleep 0, Attempt 1, Sleep 0, Attempt 2, Sleep 0, Attempt 3]
   \<and> \<not> jitterEnabled (merged_retry default_client hasty_call)
   \<and> min (initialDelay (merged_retry default_client hasty_call)
            * backoffFactor (merged_retry default_client hasty_call) ^ 0)
       (maxDelay (merged_retry default_client hasty_call)) = - 100"
  by (simp add: run_defs config_defs retry_loop.simps default_client_def hasty_call_def
      plain_call_def answering_def internal_error_envelope_def merged_retry_def)

subsection \<open>Which failures end the loop\<close>









subsection \<open>Timeouts and \<open>timeoutCount\<close>\<close>

text \<open>
  C9 (as amended). In one attempt: when the session is ready in time and the stream then
  exceeds \<open>requestTimeout\<close>, the attempt fails with an \<open>Error\<close> whose message is
  \<open>Request timeout after <requestTimeout>ms\<close>, with no code and no status, and
  \<open>timeoutCount\<close> grows by one if \<open>resilience.timeout.enabled\<close> and stays as it is
  otherwise. When the session is not ready within \<open>connectionTimeout\<close> (and
  \<open>connectionTimeout\<close> does not exceed \<open>requestTimeout\<close> where the timeout pattern is
  enabled), the attempt fails with the message \<open>Connection timeout after
  <connectionTimeout>ms\<close> and \<open>timeoutCount\<close> stays as it is.
\<close>

theorem timeout_accounting:
  "(t < connectionTimeout (timeout (resilience this))
      \<and> exceeds (requestTimeout (timeout (resilience this))) s \<longrightarrow>
      fst (executeAttempt (Connect t s) this)
        = Inl \<lparr>err_message = ''Request timeout after ''
                   @ show_nat (requestTimeout (timeout (resilience this))) @ ''ms'',
               err_code = None, err_status = None\<rparr>
      \<and> timeoutCount (metrics (snd (executeAttempt (Connect t s) this)))
          = timeoutCount (metrics this)
            + (if timeout_enabled (timeout (resilience this)) then 1 else 0))
   \<and> (not_ready_within (connectionTimeout (timeout (resilience this))) tr
      \<and> (timeout_enabled (timeout (resilience this)) \<longrightarrow>
           connectionTimeout (timeout (resilience this))
             \<le> requestTimeout (timeout (resilience this))) \<longrightarrow>
      fst (executeAttempt tr this)
        = Inl \<lparr>err_message = ''Connection timeout after ''
                   @ show_nat (connectionTimeout (timeout (resilience this))) @ ''ms'',
               err_code = None, err_status = None\<rparr>
      \<and> timeoutCount (metrics (snd (executeAttempt tr this))) = timeoutCount (metrics this))"
proof -
  have A: "fst (executeAttempt (Connect t s) this)
        = Inl \<lparr>err_message = ''Request timeout after ''
                   @ show_nat (requestTimeout (timeout (resilience this))) @ ''ms'',
               err_code = None, err_status = None\<rparr>
      \<and> timeoutCount (metrics (snd (executeAttempt (Connect t s) this)))
          = timeoutCount (metrics this)
            + (if timeout_enabled (timeout (resilience this)) then 1 else 0)"
    if "t < connectionTimeout (timeout (resilience this))"
      "exceeds (requestTimeout (timeout (resilience this))) s"
    using that
    by (cases s)
       (simp_all add: executeAttempt_def makeRequest_def createTimeoutPromise_def
          wrapper_fires_first_def exceeds_def request_timeout_error_def Error_def Let_def)
  have B: "fst (executeAttempt tr this)
        = Inl \<lparr>err_message = ''Connection timeout after ''
                   @ show_nat (connectionTimeout (timeout (resilience this))) @ ''ms'',
               err_code = None, err_status = None\<rparr>
      \<and> timeoutCount (metrics (snd (executeAttempt tr this))) = timeoutCount (metrics this)"
    if "not_ready_within (connectionTimeout (timeout (resilience this))) tr"
      "timeout_enabled (timeout (resilience this)) \<longrightarrow>
           connectionTimeout (timeout (resilience this))
             \<le> requestTimeout (timeout (resilience this))"
    using that
    by (cases tr)
       (auto simp add: executeAttempt_def makeRequest_def createTimeoutPromise_def
          wrapper_fires_first_def not_ready_within_def connection_timeout_error_def Error_def
          Let_def)
  show ?thesis using A B by blast
qed

lemma show_nat_30000: "show_nat 30000 = ''30000''"
  by (simp add: show_nat.simps)

lemma show_nat_5000: "show_nat 5000 = ''5000''"
  by (simp add: show_nat.simps)

theorem timeout_accounting_witness:
  "1 < connectionTimeout (timeout (resilience default_client))
   \<and> exceeds (requestTimeout (timeout (resilience default_client))) Silent
   \<and> fst (executeAttempt (Connect 1 Silent) default_client)
       = Inl \<lparr>err_message = ''Request timeout after 30000ms'', err_code = None,
              err_status = None\<rparr>
   \<and> timeoutCount (metrics (snd (executeAttempt (Connect 1 Silent) default_client))) = 1
   \<and> not_ready_within (connectionTimeout (timeout (resilience default_client))) NoConnect
   \<and> timeout_enabled (timeout (resilience default_client))
   \<and> connectionTimeout (timeout (resilience default_client))
       \<le> requestTimeout (timeout (resilience default_client))
   \<and> fst (executeAttempt NoConnect default_client)
       = Inl \<lparr>err_message = ''Connection timeout after 5000ms'', err_code = None,
              err_status = None\<rparr>
   \<and> timeoutCount (metrics (snd (executeAttempt NoConnect default_client))) = 0"
proof -
  have cfg: "connectionTimeout (timeout (resilience default_client)) = 5000"
    "requestTimeout (timeout (resilience default_client)) = 30000"
    "timeout_enabled (timeout (resilience default_client))"
    "timeoutCount (metrics default_client) = 0"
    by (simp_all add: default_client_def config_defs)
  have h: "exceeds (requestTimeout (timeout (resilience default_client))) Silent"
    "not_ready_within (connectionTimeout (timeout (resilience default_client))) NoConnect"
    by (simp_all add: exceeds_def not_ready_within_def)
  from timeout_accounting [of 1 default_client Silent NoConnect] h
  show ?thesis by (simp add: cfg show_nat_30000 show_nat_5000)
qed

text \<open>
  C9 as stated fails. Against a peer that never completes the connection, a call on the
  default configuration fails with the connection timeout and \<open>timeoutCount\<close> is still 0.
\<close>

theorem connection_timeout_is_not_counted:
  "fst (request default_client plain_call 0 never_connects)
     = Inl (Some \<lparr>err_message = ''Connection timeout after 5000ms'', err_code = None,
                  err_status = None\<rparr>)
   \<and> timeoutCount (metrics (fst (snd (request default_client plain_call 0 never_connects)))) = 0"
  by (simp add: run_defs config_defs retry_loop.simps default_client_def plain_call_def
      never_connects_def show_nat_5000)


subsection \<open>The circuit breaker's transitions\<close>

lemma failure_step:
  "fst (getCircuitBreakerState url (updateCircuitBreakerOnFailure url tL now this)) =
     (let c = fst (getCircuitBreakerState url this);
          c1 = c\<lparr>failureCount := failureCount c + 1, lastFailureTime := tL, successCount := 0\<rparr>
      in if state c = CLOSED \<and> failureThreshold (circuitBreaker (resilience this)) \<le> failureCount c + 1
         then c1\<lparr>state := OPEN,
                 nextAttemptTime := now + recoveryTimeout (circuitBreaker (resilience this))\<rparr>
         else if state c = HALF_OPEN
         then c1\<lparr>state := OPEN,
                 nextAttemptTime := now + recoveryTimeout (circuitBreaker (resilience this))\<rparr>
         else c1)"
  by (auto simp add: updateCircuitBreakerOnFailure_def getCircuitBreakerState_def Let_def
      split: option.splits)



lemma failure_step_registered:
  "circuitBreakers (updateCircuitBreakerOnFailure url tL now this) url \<noteq> None"
  by (auto simp add: updateCircuitBreakerOnFailure_def getCircuitBreakerState_def Let_def
      split: option.splits)

lemma success_step:
  "fst (getCircuitBreakerState url (updateCircuitBreakerOnSuccess url this)) =
     (let c = fst (getCircuitBreakerState url this)
      in if state c = HALF_OPEN then
           (if successThreshold (circuitBreaker (resilience this)) \<le> successCount c + 1
            then c\<lparr>successCount := 0, state := CLOSED, failureCount := 0\<rparr>
            else c\<lparr>successCount := successCount c + 1\<rparr>)
         else if state c = CLOSED then c\<lparr>failureCount := 0\<rparr>
         else c)"
  by (auto simp add: updateCircuitBreakerOnSuccess_def getCircuitBreakerState_def Let_def
      split: option.splits)

lemma success_step_resilience:
  "resilience (updateCircuitBreakerOnSuccess url this) = resilience this"
  by (auto simp add: updateCircuitBreakerOnSuccess_def getCircuitBreakerState_def Let_def
      split: option.splits)





















lemma refused_client_circuit:
  "fst (getCircuitBreakerState ''http://peer:3000'' refused_client)
     = \<lparr>state = OPEN, failureCount = 4, successCount = 0, lastFailureTime = 1000,
        nextAttemptTime = 11000\<rparr>"
  by (simp add: refused_client_def run_defs config_defs retry_loop.simps breaker_off_client_def
      plain_call_def answering_def internal_error_envelope_def)



lemma afterSuccesses_Suc:
  "afterSuccesses url (Suc k) this = updateCircuitBreakerOnSuccess url (afterSuccesses url k this)"
  by (simp add: afterSuccesses_def)

lemma afterSuccesses_half_open:
  assumes "state (fst (getCircuitBreakerState url this)) = HALF_OPEN"
    and "successCount (fst (getCircuitBreakerState url this)) = 0"
    and "int k < successThreshold (circuitBreaker (resilience this))"
  shows "state (fst (getCircuitBreakerState url (afterSuccesses url k this))) = HALF_OPEN
       \<and> successCount (fst (getCircuitBreakerState url (afterSuccesses url k this))) = int k
       \<and> resilience (afterSuccesses url k this) = resilience this"
  using assms
proof (induction k)
  case 0
  then show ?case by (simp add: afterSuccesses_def)
next
  case (Suc k)
  then have IH: "state (fst (getCircuitBreakerState url (afterSuccesses url k this))) = HALF_OPEN"
    "successCount (fst (getCircuitBreakerState url (afterSuccesses url k this))) = int k"
    "resilience (afterSuccesses url k this) = resilience this"
    by simp_all
  from Suc.prems(3) have "int k + 1 < successThreshold (circuitBreaker (resilience this))" by simp
  with IH show ?case
    unfolding afterSuccesses_Suc
    by (simp add: success_step success_step_resilience Let_def)
qed

lemma gate_half_opens:
  assumes "circuitBreaker_enabled (circuitBreaker (resilience this))"
    and "state (fst (getCircuitBreakerState url this)) = OPEN"
    and "nextAttemptTime (fst (getCircuitBreakerState url this)) \<le> now"
  shows "fst (checkCircuitBreaker url now this) = None
       \<and> fst (getCircuitBreakerState url (snd (checkCircuitBreaker url now this)))
           = (fst (getCircuitBreakerState url this))\<lparr>state := HALF_OPEN, successCount := 0\<rparr>
       \<and> resilience (snd (checkCircuitBreaker url now this)) = resilience this"
  using assms
  by (auto simp add: checkCircuitBreaker_def getCircuitBreakerState_def Let_def new_circuit_def
      split: option.splits)

text \<open>
  C3 (as amended). Where \<open>resilience.circuitBreaker.enabled\<close> is true, for a
  \<open>serviceUrl\<close> whose breaker is OPEN: a gate check at a time \<open>now >= nextAttemptTime\<close> lets
  the request pass and moves the breaker to HALF_OPEN with \<open>successCount = 0\<close>. From
  there, fewer than \<open>successThreshold\<close> consecutive successes leave it HALF_OPEN, and a
  single failure at any such point returns it to OPEN with \<open>nextAttemptTime\<close> re-armed to
  the clock reading plus \<open>recoveryTimeout\<close>; \<open>successThreshold\<close> (at least one)
  consecutive successes return it to CLOSED with \<open>failureCount = successCount = 0\<close>.
\<close>

theorem half_open_recovery:
  assumes enabled: "circuitBreaker_enabled (circuitBreaker (resilience this))"
    and opened: "state (fst (getCircuitBreakerState url this)) = OPEN"
    and due: "nextAttemptTime (fst (getCircuitBreakerState url this)) \<le> now"
    and thr: "0 < successThreshold (circuitBreaker (resilience this))"
  shows "fst (checkCircuitBreaker url now this) = None
       \<and> state (fst (getCircuitBreakerState url (snd (checkCircuitBreaker url now this))))
           = HALF_OPEN
       \<and> successCount (fst (getCircuitBreakerState url (snd (checkCircuitBreaker url now this))))
           = 0
       \<and> (\<forall>k tL t. int k < successThreshold (circuitBreaker (resilience this)) \<longrightarrow>
             state (fst (getCircuitBreakerState url
               (afterSuccesses url k (snd (checkCircuitBreaker url now this))))) = HALF_OPEN
             \<and> state (fst (getCircuitBreakerState url
                 (updateCircuitBreakerOnFailure url tL t
                    (afterSuccesses url k (snd (checkCircuitBreaker url now this)))))) = OPEN
             \<and> nextAttemptTime (fst (getCircuitBreakerState url
                 (updateCircuitBreakerOnFailure url tL t
                    (afterSuccesses url k (snd (checkCircuitBreaker url now this))))))
                 = t + recoveryTimeout (circuitBreaker (resilience this)))
       \<and> state (fst (getCircuitBreakerState url
             (afterSuccesses url (nat (successThreshold (circuitBreaker (resilience this))))
                (snd (checkCircuitBreaker url now this))))) = CLOSED
       \<and> failureCount (fst (getCircuitBreakerState url
             (afterSuccesses url (nat (successThreshold (circuitBreaker (resilience this))))
                (snd (checkCircuitBreaker url now this))))) = 0
       \<and> successCount (fst (getCircuitBreakerState url
             (afterSuccesses url (nat (successThreshold (circuitBreaker (resilience this))))
                (snd (checkCircuitBreaker url now this))))) = 0"
proof -
  define half where "half = snd (checkCircuitBreaker url now this)"
  from gate_half_opens [OF enabled opened due]
  have gate: "fst (checkCircuitBreaker url now this) = None"
    and h: "state (fst (getCircuitBreakerState url half)) = HALF_OPEN"
      "successCount (fst (getCircuitBreakerState url half)) = 0"
      "resilience half = resilience this"
    by (simp_all add: half_def)
  have part: "state (fst (getCircuitBreakerState url (afterSuccesses url k half))) = HALF_OPEN
        \<and> state (fst (getCircuitBreakerState url
              (updateCircuitBreakerOnFailure url tL t (afterSuccesses url k half)))) = OPEN
        \<and> nextAttemptTime (fst (getCircuitBreakerState url
              (updateCircuitBreakerOnFailure url tL t (afterSuccesses url k half))))
            = t + recoveryTimeout (circuitBreaker (resilience this))"
    if "int k < successThreshold (circuitBreaker (resilience this))" for k tL t
  proof -
    from that h have "int k < successThreshold (circuitBreaker (resilience half))" by simp
    from afterSuccesses_half_open [OF h(1) h(2) this] h(3)
    show ?thesis by (simp add: failure_step Let_def)
  qed
  define m where "m = nat (successThreshold (circuitBreaker (resilience this))) - 1"
  have n: "nat (successThreshold (circuitBreaker (resilience this))) = Suc m"
    using thr by (simp add: m_def)
  have "int m < successThreshold (circuitBreaker (resilience half))"
    using thr h(3) by (simp add: m_def)
  from afterSuccesses_half_open [OF h(1) h(2) this]
  have before: "state (fst (getCircuitBreakerState url (afterSuccesses url m half))) = HALF_OPEN"
    "successCount (fst (getCircuitBreakerState url (afterSuccesses url m half))) = int m"
    "resilience (afterSuccesses url m half) = resilience this"
    using h(3) by simp_all
  have reach: "successThreshold (circuitBreaker (resilience this)) \<le> int m + 1"
    using thr by (simp add: m_def)
  have closes: "state (fst (getCircuitBreakerState url (afterSuccesses url (Suc m) half))) = CLOSED"
    "failureCount (fst (getCircuitBreakerState url (afterSuccesses url (Suc m) half))) = 0"
    "successCount (fst (getCircuitBreakerState url (afterSuccesses url (Suc m) half))) = 0"
    unfolding afterSuccesses_Suc using before reach
    by (simp_all add: success_step Let_def)
  show ?thesis
    using gate h(1,2) part closes unfolding half_def [symmetric] n by blast
qed


lemma tripped_client_circuit:
  "fst (getCircuitBreakerState ''http://peer:3000'' tripped_client)
     = \<lparr>state = OPEN, failureCount = 5, successCount = 0, lastFailureTime = 5000,
        nextAttemptTime = 15001\<rparr>"
  "resilience tripped_client = resilience default_client"
  by (simp_all add: tripped_client_def afterFailures_def updateCircuitBreakerOnFailure_def
      getCircuitBreakerState_def new_circuit_def Let_def default_client_def config_defs)

theorem half_open_recovery_witness:
  "circuitBreaker_enabled (circuitBreaker (resilience tripped_client))
   \<and> state (fst (getCircuitBreakerState ''http://peer:3000'' tripped_client)) = OPEN
   \<and> nextAttemptTime (fst (getCircuitBreakerState ''http://peer:3000'' tripped_client)) \<le> 15001
   \<and> 0 < successThreshold (circuitBreaker (resilience tripped_client))
   \<and> fst (checkCircuitBreaker ''http://peer:3000'' 15001 tripped_client) = None
   \<and> state (fst (getCircuitBreakerState ''http://peer:3000''
        (snd (checkCircuitBreaker ''http://peer:3000'' 15001 tripped_client)))) = HALF_OPEN
   \<and> state (fst (getCircuitBreakerState ''http://peer:3000''
        (updateCircuitBreakerOnFailure ''http://peer:3000'' 20000 20001
           (afterSuccesses ''http://peer:3000'' 2
              (snd (checkCircuitBreaker ''http://peer:3000'' 15001 tripped_client)))))) = OPEN
   \<and> nextAttemptTime (fst (getCircuitBreakerState ''http://peer:3000''
        (updateCircuitBreakerOnFailure ''http://peer:3000'' 20000 20001
           (afterSuccesses ''http://peer:3000'' 2
              (snd (checkCircuitBreaker ''http://peer:3000'' 15001 tripped_client)))))) = 30001
   \<and> state (fst (getCircuitBreakerState ''http://peer:3000''
        (afterSuccesses ''http://peer:3000'' 3
           (snd (checkCircuitBreaker ''http://peer:3000'' 15001 tripped_client))))) = CLOSED
   \<and> failureCount (fst (getCircuitBreakerState ''http://peer:3000''
        (afterSuccesses ''http://peer:3000'' 3
           (snd (checkCircuitBreaker ''http://peer:3000'' 15001 tripped_client))))) = 0"
proof -
  have cfg: "circuitBreaker_enabled (circuitBreaker (resilience tripped_client))"
    "successThreshold (circuitBreaker (resilience tripped_client)) = 3"
    "recoveryTimeout (circuitBreaker (resilience tripped_client)) = 10000"
    by (simp_all add: tripped_client_circuit default_client_def config_defs)
  have opened: "state (fst (getCircuitBreakerState ''http://peer:3000'' tripped_client)) = OPEN"
    and due: "nextAttemptTime (fst (getCircuitBreakerState ''http://peer:3000'' tripped_client))
                \<le> 15001"
    by (simp_all add: tripped_client_circuit)
  have thr: "0 < successThreshold (circuitBreaker (resilience tripped_client))"
    by (simp add: cfg)
  note all = half_open_recovery [OF cfg(1) opened due thr]
  have k: "int 2 < successThreshold (circuitBreaker (resilience tripped_client))"
    by (simp add: cfg)
  from all have "\<forall>k tL t. int k < successThreshold (circuitBreaker (resilience tripped_client)) \<longrightarrow>
             state (fst (getCircuitBreakerState ''http://peer:3000''
               (afterSuccesses ''http://peer:3000'' k
                  (snd (checkCircuitBreaker ''http://peer:3000'' 15001 tripped_client)))))
               = HALF_OPEN
             \<and> state (fst (getCircuitBreakerState ''http://peer:3000''
                 (updateCircuitBreakerOnFailure ''http://peer:3000'' tL t
                    (afterSuccesses ''http://peer:3000'' k
                       (snd (checkCircuitBreaker ''http://peer:3000'' 15001 tripped_client))))))
                 = OPEN
             \<and> nextAttemptTime (fst (getCircuitBreakerState ''http://peer:3000''
                 (updateCircuitBreakerOnFailure ''http://peer:3000'' tL t
                    (afterSuccesses ''http://peer:3000'' k
                       (snd (checkCircuitBreaker ''http://peer:3000'' 15001 tripped_client))))))
                 = t + recoveryTimeout (circuitBreaker (resilience tripped_client))"
    by blast
  from this [rule_format, OF k, of 20000 20001] all cfg opened due
  show ?thesis by simp
qed

text \<open>
  C3 as stated fails. With \<open>circuitBreaker: { enabled: false, failureThreshold: 1 }\<close> the
  breaker opened by a failure at time 1000 is still OPEN after a gate check at time 20000,
  well past its \<open>nextAttemptTime\<close>.
\<close>

theorem disabled_breaker_stays_open:
  "state (fst (getCircuitBreakerState ''http://peer:3000''
      (afterFailures ''http://peer:3000'' [(1000, 1000)] breaker_off_client))) = OPEN
   \<and> nextAttemptTime (fst (getCircuitBreakerState ''http://peer:3000''
      (afterFailures ''http://peer:3000'' [(1000, 1000)] breaker_off_client))) \<le> 20000
   \<and> state (fst (getCircuitBreakerState ''http://peer:3000''
        (snd (checkCircuitBreaker ''http://peer:3000'' 20000
           (afterFailures ''http://peer:3000'' [(1000, 1000)] breaker_off_client))))) = OPEN"
  by (simp add: afterFailures_def updateCircuitBreakerOnFailure_def getCircuitBreakerState_def
      checkCircuitBreaker_def new_circuit_def Let_def breaker_off_client_def config_defs)


subsection \<open>The bulkhead's bounds\<close>


















subsection \<open>The order of admission\<close>


lemma settle_nextPromise [simp]: "nextPromise (settle p v rt) = nextPromise rt"
  by (auto simp add: settle_def split: option.splits promise.splits)

lemma clearTimeout_promises [simp]: "promises (clearTimeout p rt) = promises rt"
  by (simp add: clearTimeout_def)

lemma clearTimeout_nextPromise [simp]: "nextPromise (clearTimeout p rt) = nextPromise rt"
  by (simp add: clearTimeout_def)





















lemmas bulkhead_defs =
  bulkhead_run_def acquireMethodBulkheadPermit_def releaseMethodBulkheadPermit_def
  queueTimerFires_def settle_def clearTimeout_def findIndex.simps splice_one_def
  fresh_runtime_def waiting_def below_def number_of_int_def admitted_by_def enqueued_by_def
  Let_def

lemmas echo_server_defs =
  echo_server_def half_server_def addMethod_def tight_bulkhead_def half_bulkhead_def
  no_bulkhead_options_def constructor_server_def no_server_options_def or_null_def
  truthy_string_def spread_def initial_metrics_def isPositiveNumber_def invalid_limit_def
  isNonEmptyString_def is_whitespace_def DEFAULT_MAX_CONCURRENT_def DEFAULT_MAX_QUEUE_def
  DEFAULT_QUEUE_TIMEOUT_def Let_def




lemma busy_echo_state:
  "map_of (timers (snd busy_echo)) 0 = Some ''echo''"
  "promises (snd busy_echo) 0 = Some Pending"
  "waiting ''echo'' (fst busy_echo) = [0]"
  "bulkheadState (fst busy_echo) ''echo''
     = Some \<lparr>config = \<lparr>bulkhead_enabled = True, maxConcurrentRequests = Some (Finite 1),
                         maxQueueSize = Some (Finite 1), queueTimeout = Some (Finite 10000)\<rparr>,
             activeRequests = 1,
             queuedRequests = [\<lparr>q_resolve = ResolveWrapper 0, q_reject = RejectWrapper 0\<rparr>],
             rejectedRequests = 0\<rparr>"
  "server_metrics (fst busy_echo) = initial_metrics"
  by (simp_all add: busy_echo_def bulkhead_defs echo_server_defs)



subsection \<open>Bulkhead rejections\<close>

text \<open>
  C5 (as amended). If a request waits in a method's queue (its promise is pending and its
  queue timer is armed) and the timer fires, the promise is rejected with
  \<open>Method <name> bulkhead queue timeout\<close> and the request is answered with status 503
  and \<open>{ error: 'METHOD_BULKHEAD_EXCEEDED', message: 'Method <name> is overloaded',
  method: <name>, reason: 'bulkhead_capacity_exceeded' }\<close>, counted as a request and as
  an error. If a request asks for a permit while the method's bulkhead is enabled,
  saturated and its queue full (neither \<open>activeRequests < maxConcurrentRequests\<close> nor
  \<open>queuedRequests.length < maxQueueSize\<close> holds), \<open>rejectedRequests\<close> and
  \<open>bulkheadRejections\<close> are incremented, nothing is queued and no timer is armed, and the
  request is answered at once with the same status and body, counted as a request and as
  an error.
\<close>

theorem bulkhead_rejections:
  "(map_of (timers rt) p = Some path \<and> promises rt p = Some Pending \<longrightarrow>
      promises (snd (queueTimerFires p this rt)) p
        = Some (Rejected (Error (''Method '' @ path @ '' bulkhead queue timeout'')))
      \<and> fst (onPermitSettled path p (fst (queueTimerFires p this rt))
                (snd (queueTimerFires p this rt)))
          = Sent \<lparr>statusCode = 503,
                  body = ErrorBody ''METHOD_BULKHEAD_EXCEEDED''
                           (Some (''Method '' @ path @ '' is overloaded''))
                           [(''method'', path), (''reason'', ''bulkhead_capacity_exceeded'')]\<rparr>
      \<and> requestCount (server_metrics (snd (onPermitSettled path p
            (fst (queueTimerFires p this rt)) (snd (queueTimerFires p this rt)))))
          = requestCount (server_metrics this) + 1
      \<and> errorCount (server_metrics (snd (onPermitSettled path p
            (fst (queueTimerFires p this rt)) (snd (queueTimerFires p this rt)))))
          = errorCount (server_metrics this) + 1)
   \<and> (bulkheadState this path = Some ms \<and> bulkhead_enabled (config ms)
       \<and> \<not> below (activeRequests ms) (maxConcurrentRequests (config ms))
       \<and> \<not> below (int (length (queuedRequests ms))) (maxQueueSize (config ms)) \<longrightarrow>
      fst (acquirePermitStep path this rt)
        = Sent \<lparr>statusCode = 503,
                body = ErrorBody ''METHOD_BULKHEAD_EXCEEDED''
                         (Some (''Method '' @ path @ '' is overloaded''))
                         [(''method'', path), (''reason'', ''bulkhead_capacity_exceeded'')]\<rparr>
      \<and> bulkheadState (fst (snd (acquirePermitStep path this rt))) path
          = Some (ms\<lparr>rejectedRequests := rejectedRequests ms + 1\<rparr>)
      \<and> bulkheadRejections (server_metrics (fst (snd (acquirePermitStep path this rt))))
          = bulkheadRejections (server_metrics this) + 1
      \<and> requestCount (server_metrics (fst (snd (acquirePermitStep path this rt))))
          = requestCount (server_metrics this) + 1
      \<and> errorCount (server_metrics (fst (snd (acquirePermitStep path this rt))))
          = errorCount (server_metrics this) + 1
      \<and> snd (snd (acquirePermitStep path this rt)) = rt)"
proof -
  have A: "promises (snd (queueTimerFires p this rt)) p
        = Some (Rejected (Error (''Method '' @ path @ '' bulkhead queue timeout'')))
      \<and> server_metrics (fst (queueTimerFires p this rt)) = server_metrics this"
    if "map_of (timers rt) p = Some path" "promises rt p = Some Pending"
    using that
    by (auto simp add: queueTimerFires_def settle_def clearTimeout_def Let_def
        split: option.splits)
  have B: "fst (onPermitSettled path p this1 rt1) = Sent (bulkheadRejection path)
      \<and> requestCount (server_metrics (snd (onPermitSettled path p this1 rt1)))
          = requestCount (server_metrics this1) + 1
      \<and> errorCount (server_metrics (snd (onPermitSettled path p this1 rt1)))
          = errorCount (server_metrics this1) + 1"
    if "promises rt1 p = Some (Rejected e)" for this1 rt1 e
    using that by (simp add: onPermitSettled_def updateMetrics_def)
  have C: "fst (acquirePermitStep path this rt) = Sent (bulkheadRejection path)
      \<and> bulkheadState (fst (snd (acquirePermitStep path this rt))) path
          = Some (ms\<lparr>rejectedRequests := rejectedRequests ms + 1\<rparr>)
      \<and> bulkheadRejections (server_metrics (fst (snd (acquirePermitStep path this rt))))
          = bulkheadRejections (server_metrics this) + 1
      \<and> requestCount (server_metrics (fst (snd (acquirePermitStep path this rt))))
          = requestCount (server_metrics this) + 1
      \<and> errorCount (server_metrics (fst (snd (acquirePermitStep path this rt))))
          = errorCount (server_metrics this) + 1
      \<and> snd (snd (acquirePermitStep path this rt)) = rt"
    if "bulkheadState this path = Some ms" "bulkhead_enabled (config ms)"
      "\<not> below (activeRequests ms) (maxConcurrentRequests (config ms))"
      "\<not> below (int (length (queuedRequests ms))) (maxQueueSize (config ms))"
    using that
    by (simp add: acquirePermitStep_def acquireMethodBulkheadPermit_def updateMetrics_def)
  show ?thesis
    using A B [of "snd (queueTimerFires p this rt)" _ "fst (queueTimerFires p this rt)"] C
    by (simp add: bulkheadRejection_def)
qed

theorem bulkhead_rejections_witness:
  "map_of (timers (snd busy_echo)) 0 = Some ''echo''
   \<and> promises (snd busy_echo) 0 = Some Pending
   \<and> fst (onPermitSettled ''echo'' 0 (fst (queueTimerFires 0 (fst busy_echo) (snd busy_echo)))
            (snd (queueTimerFires 0 (fst busy_echo) (snd busy_echo))))
       = Sent \<lparr>statusCode = 503,
               body = ErrorBody ''METHOD_BULKHEAD_EXCEEDED'' (Some ''Method echo is overloaded'')
                        [(''method'', ''echo''), (''reason'', ''bulkhead_capacity_exceeded'')]\<rparr>
   \<and> \<not> below 1 (Some (Finite 1))
   \<and> fst (acquirePermitStep ''echo'' (fst busy_echo) (snd busy_echo))
       = Sent \<lparr>statusCode = 503,
               body = ErrorBody ''METHOD_BULKHEAD_EXCEEDED'' (Some ''Method echo is overloaded'')
                        [(''method'', ''echo''), (''reason'', ''bulkhead_capacity_exceeded'')]\<rparr>
   \<and> map_option rejectedRequests
        (bulkheadState (fst (snd (acquirePermitStep ''echo'' (fst busy_echo) (snd busy_echo))))
           ''echo'') = Some 1
   \<and> bulkheadRejections (server_metrics (fst (snd (acquirePermitStep ''echo'' (fst busy_echo)
        (snd busy_echo))))) = 1"
proof -
  note inst = bulkhead_rejections [of "snd busy_echo" 0 "''echo''" "fst busy_echo"
      "\<lparr>config = \<lparr>bulkhead_enabled = True, maxConcurrentRequests = Some (Finite 1),
                   maxQueueSize = Some (Finite 1), queueTimeout = Some (Finite 10000)\<rparr>,
        activeRequests = 1,
        queuedRequests = [\<lparr>q_resolve = ResolveWrapper 0, q_reject = RejectWrapper 0\<rparr>],
        rejectedRequests = 0\<rparr>"]
  have full: "\<not> below 1 (Some (Finite 1))" by (simp add: below_def number_of_int_def)
  from inst show ?thesis
    using busy_echo_state full by (simp add: initial_metrics_def)
qed

text \<open>
  C5 as stated fails. On the server above the queue timer of the waiting request fires:
  the answer carries the reason \<open>bulkhead_capacity_exceeded\<close>, not a queue-timeout
  reason, and the waiter is still in the queue.
\<close>

theorem queue_timeout_answer:
  "fst (onPermitSettled ''echo'' 0 (fst (queueTimerFires 0 (fst busy_echo) (snd busy_echo)))
          (snd (queueTimerFires 0 (fst busy_echo) (snd busy_echo))))
     = Sent \<lparr>statusCode = 503,
             body = ErrorBody ''METHOD_BULKHEAD_EXCEEDED'' (Some ''Method echo is overloaded'')
                      [(''method'', ''echo''), (''reason'', ''bulkhead_capacity_exceeded'')]\<rparr>
   \<and> waiting ''echo'' (fst (queueTimerFires 0 (fst busy_echo) (snd busy_echo))) = [0]"
  by (simp add: busy_echo_def bulkhead_defs echo_server_defs onPermitSettled_def
      bulkheadRejection_def)

subsection \<open>JWT verification\<close>












subsection \<open>JWT authentication without a public key\<close>





end
